theory Spec2Isabelle
  imports Main
begin

section \<open>Values, errors and number printing\<close>

text \<open>
  Exceptions of the TypeScript code are values of the type \<open>error\<close>; a function that may
  throw returns \<open>error + 'a\<close> with \<open>Inl\<close> for the thrown value. \<open>Error m c\<close> is
  \<^verbatim>\<open>new Error(m, { cause: c })\<close>, \<open>ValidationError\<close> is the class of
  \<^verbatim>\<open>src/errors.ts\<close>, \<open>ZodError\<close> is what a schema's \<^verbatim>\<open>parse\<close> throws, and
  \<open>Thrown\<close> stands for any exception raised by the platform (a network failure of
  \<^verbatim>\<open>fetch\<close>, the \<^verbatim>\<open>SyntaxError\<close> of \<^verbatim>\<open>response.json()\<close>, a \<^verbatim>\<open>RangeError\<close>).
\<close>

datatype key = Field string | Index nat

datatype zod_issue = InvalidType "key list" string string

datatype error =
    Error string "error option"
  | ValidationError string "zod_issue list" "error option"
  | ZodError "zod_issue list"
  | Thrown string

text \<open>
  \<open>number_to_string\<close> is the conversion a template literal applies to an integral number
  (and to a bigint): the shortest decimal numeral, with a minus sign when negative.
\<close>

fun show_nat :: "nat \<Rightarrow> string" where
  "show_nat n =
     (if n < 10 then [''0123456789'' ! n]
      else show_nat (n div 10) @ [''0123456789'' ! (n mod 10)])"

declare show_nat.simps [simp del]

definition number_to_string :: "int \<Rightarrow> string" where
  "number_to_string i =
     (if i < 0 then CHR ''-'' # show_nat (nat (- i)) else show_nat (nat i))"

datatype json =
    JNull
  | JBool bool
  | JNumber int
  | JString string
  | JArray "json list"
  | JObject "(string \<times> json) list"

section \<open>Dates\<close>

text \<open>
  A JavaScript \<^verbatim>\<open>Date\<close> is either invalid or a time value, the milliseconds since
  1970-01-01T00:00:00Z. Its local-time accessors depend on the time zone of the process,
  which is part of the environment, together with the clock \<open>now\<close>. The time zone
  is modelled as a fixed offset \<open>tz\<close> (local time minus UTC, in milliseconds);
  daylight-saving transitions and the limit of \<open>8.64e15\<close> ms on time values are outside
  the model. The third field, \<open>with_time\<close>, is explained with \<open>parseISO\<close> below.
\<close>

datatype js_date = InvalidDate | Date int

record env =
  tz :: int
  now :: int
  with_time :: "string \<Rightarrow> js_date"

definition msPerDay :: int where
  "msPerDay = 86400000"

text \<open>
  The proleptic Gregorian calendar of ECMAScript (\<^verbatim>\<open>YearFromTime\<close>, \<^verbatim>\<open>MonthFromTime\<close>,
  \<^verbatim>\<open>DateFromTime\<close>, \<^verbatim>\<open>MakeDay\<close>) on day numbers, day 0 being 1970-01-01: a day number
  becomes (year, month 1..12, day of month) and back. Years are counted from March inside
  a 400-year era of 146097 days.
\<close>

definition civil_from_days :: "int \<Rightarrow> int \<times> int \<times> int" where
  "civil_from_days n =
     (let z = n + 719468;
          era = z div 146097;
          doe = z mod 146097;
          yoe = (doe - doe div 1460 + doe div 36524 - doe div 146096) div 365;
          doy = doe - (365 * yoe + yoe div 4 - yoe div 100);
          mp = (5 * doy + 2) div 153;
          d = doy - (153 * mp + 2) div 5 + 1;
          m = (if mp < 10 then mp + 3 else mp - 9);
          y = yoe + era * 400
      in (if m \<le> 2 then y + 1 else y, m, d))"

definition days_from_civil :: "int \<Rightarrow> int \<Rightarrow> int \<Rightarrow> int" where
  "days_from_civil y m d =
     (let y' = (if m \<le> 2 then y - 1 else y);
          era = y' div 400;
          yoe = y' mod 400;
          doy = (153 * (if m > 2 then m - 3 else m + 9) + 2) div 5 + d - 1;
          doe = yoe * 365 + yoe div 4 - yoe div 100 + doy
      in era * 146097 + doe - 719468)"

definition local_day :: "env \<Rightarrow> int \<Rightarrow> int" where
  "local_day e t = (t + tz e) div msPerDay"

text \<open>
  The accessors return \<open>None\<close> for the \<^verbatim>\<open>NaN\<close> an invalid date answers.
  \<open>getMonth\<close> counts from 0 and \<open>getDay\<close> is the week day, 0 for Sunday
  (1970-01-01 was a Thursday).
\<close>

fun getFullYear :: "env \<Rightarrow> js_date \<Rightarrow> int option" where
  "getFullYear e InvalidDate = None"
| "getFullYear e (Date t) = Some (fst (civil_from_days (local_day e t)))"

fun getMonth :: "env \<Rightarrow> js_date \<Rightarrow> int option" where
  "getMonth e InvalidDate = None"
| "getMonth e (Date t) = Some (fst (snd (civil_from_days (local_day e t))) - 1)"

fun getDate :: "env \<Rightarrow> js_date \<Rightarrow> int option" where
  "getDate e InvalidDate = None"
| "getDate e (Date t) = Some (snd (snd (civil_from_days (local_day e t))))"

fun getDay :: "env \<Rightarrow> js_date \<Rightarrow> int option" where
  "getDay e InvalidDate = None"
| "getDay e (Date t) = Some ((local_day e t + 4) mod 7)"

definition pad_start :: "nat \<Rightarrow> string \<Rightarrow> string" where
  "pad_start n s = replicate (n - length s) CHR ''0'' @ s"

text \<open>
  \<^verbatim>\<open>toISOString().split('T')[0]\<close>: the UTC calendar date, zero-padded, with the
  six-digit signed year of ECMAScript outside 0..9999. \<^verbatim>\<open>toISOString\<close> throws a
  \<^verbatim>\<open>RangeError\<close> on an invalid date.
\<close>

fun toISOString_date :: "js_date \<Rightarrow> error + string" where
  "toISOString_date InvalidDate = Inl (Thrown ''RangeError: Invalid time value'')"
| "toISOString_date (Date t) =
     (case civil_from_days (t div msPerDay) of (y, m, d) \<Rightarrow>
        Inr ((if 0 \<le> y \<and> y \<le> 9999 then pad_start 4 (show_nat (nat y))
              else (if y < 0 then ''-'' else ''+'') @ pad_start 6 (show_nat (nat \<bar>y\<bar>)))
             @ ''-'' @ pad_start 2 (show_nat (nat m))
             @ ''-'' @ pad_start 2 (show_nat (nat d))))"

section \<open>The request service (src/RequestService.ts)\<close>

subsection \<open>Query parameters\<close>

text \<open>
  The values a query parameter can hold. \<open>VNumber\<close> is an integral number,
  \<open>VBigInt\<close> a bigint primitive (\<^verbatim>\<open>typeof v === 'bigint'\<close>, for instance \<^verbatim>\<open>BigInt(42)\<close> or
  \<^verbatim>\<open>42n\<close>), \<open>VBigIntObject\<close> the wrapper object \<^verbatim>\<open>Object(42n)\<close>, the only value for which
  \<^verbatim>\<open>v instanceof BigInt\<close> holds: \<^verbatim>\<open>instanceof\<close> is false on every primitive.
  \<open>VOther\<close> is any other value (a boolean, an array, a plain object).
  A parameter record is the list of its entries in the order of \<^verbatim>\<open>Object.entries\<close>.
\<close>

datatype js_value =
    VUndefined
  | VNull
  | VNumber int
  | VBigInt int
  | VBigIntObject int
  | VString string
  | VDate js_date
  | VOther

type_synonym URLSearchParams = "(string \<times> string) list"

definition hex_digit :: "nat \<Rightarrow> char" where
  "hex_digit d = ''0123456789ABCDEF'' ! d"

definition percent_encode :: "char \<Rightarrow> string" where
  "percent_encode c =
     [CHR ''%'', hex_digit ((of_char c :: nat) div 16), hex_digit ((of_char c :: nat) mod 16)]"

definition alphanumeric :: "char \<Rightarrow> bool" where
  "alphanumeric c =
     (c \<in> set ''0123456789ABCDEFGHIJKLMNOPQRSTUVWXYZabcdefghijklmnopqrstuvwxyz'')"

text \<open>
  \<^verbatim>\<open>encodeURI\<close> (ECMAScript): strings are sequences of UTF-8 bytes here; the
  alphanumerics, the marks \<^verbatim>\<open>-_.!~*'()\<close>, the reserved characters \<^verbatim>\<open>;/?:@&=+$,\<close> and
  \<^verbatim>\<open>#\<close> stay, every other byte is percent-encoded.
\<close>

definition encodeURI :: "string \<Rightarrow> string" where
  "encodeURI s =
     concat (map (\<lambda>c. if alphanumeric c \<or> c \<in> set ''-_.!~*()'' \<or> c = CHR 0x27
                            \<or> c \<in> set '';/?:@&=+$,#''
                         then [c] else percent_encode c) s)"

text \<open>
  The string form of a \<^verbatim>\<open>URLSearchParams\<close> (the application/x-www-form-urlencoded
  serializer of the URL standard), which the template literal of \<^verbatim>\<open>request\<close> calls:
  alphanumerics and \<^verbatim>\<open>*-._\<close> stay, a space becomes \<^verbatim>\<open>+\<close>, every other byte is
  percent-encoded; pairs are written \<^verbatim>\<open>name=value\<close> and joined by \<^verbatim>\<open>&\<close>.
\<close>

definition form_urlencode :: "string \<Rightarrow> string" where
  "form_urlencode s =
     concat (map (\<lambda>c. if alphanumeric c \<or> c \<in> set ''*-._'' then [c]
                         else if c = CHR '' '' then ''+''
                         else percent_encode c) s)"

fun join_with :: "string \<Rightarrow> string list \<Rightarrow> string" where
  "join_with sep [] = ''''"
| "join_with sep [x] = x"
| "join_with sep (x # y # ys) = x @ sep @ join_with sep (y # ys)"

definition toString :: "URLSearchParams \<Rightarrow> string" where
  "toString query =
     join_with ''&'' (map (\<lambda>(name, v). form_urlencode name @ ''='' @ form_urlencode v) query)"

text \<open>
  \<^verbatim>\<open>#serializeQueryParams\<close>: the loop over the entries, with the \<^verbatim>\<open>URLSearchParams\<close>
  built so far as accumulator. A bigint primitive passes none of the three tests of the
  source (\<^verbatim>\<open>typeof value === 'number' || value instanceof BigInt\<close>, \<^verbatim>\<open>typeof value === 'string'\<close>,
  \<^verbatim>\<open>value instanceof Date\<close>), so nothing is appended for it.
\<close>

fun serializeQueryParams ::
  "(string \<times> js_value) list \<Rightarrow> URLSearchParams \<Rightarrow> error + URLSearchParams" where
  "serializeQueryParams [] query = Inr query"
| "serializeQueryParams ((key, VUndefined) # params) query = serializeQueryParams params query"
| "serializeQueryParams ((key, VNull) # params) query = serializeQueryParams params query"
| "serializeQueryParams ((key, VNumber n) # params) query =
     serializeQueryParams params (query @ [(key, number_to_string n)])"
| "serializeQueryParams ((key, VBigIntObject n) # params) query =
     serializeQueryParams params (query @ [(key, number_to_string n)])"
| "serializeQueryParams ((key, VString s) # params) query =
     serializeQueryParams params (query @ [(key, encodeURI s)])"
| "serializeQueryParams ((key, VDate d) # params) query =
     (case toISOString_date d of
        Inl err \<Rightarrow> Inl err
      | Inr s \<Rightarrow> serializeQueryParams params (query @ [(key, s)]))"
| "serializeQueryParams ((key, VBigInt n) # params) query = serializeQueryParams params query"
| "serializeQueryParams ((key, VOther) # params) query = serializeQueryParams params query"

subsection \<open>Requests with retry\<close>

record request_retry =
  count :: nat
  maxRetries :: nat
  delay :: nat

record request_service =
  basePath :: string
  requestRetry :: request_retry

text \<open>
  The constructor. The configuration is optional, and so is each of its parts;
  \<^verbatim>\<open>requestRetryConfig?.maxRetries\<close> and \<^verbatim>\<open>requestRetryConfig?.delay\<close> are the two
  last fields here. The protocol and the host name go to \<^verbatim>\<open>setGlobalOrigin\<close> of the
  HTTP library and play no part in what follows.
\<close>

record RequestServiceConfig =
  config_hostname :: "string option"
  config_basePath :: "string option"
  config_protocol :: "string option"
  config_maxRetries :: "nat option"
  config_delay :: "nat option"

definition or_default :: "string option \<Rightarrow> string \<Rightarrow> string" where
  "or_default v d = (case v of None \<Rightarrow> d | Some s \<Rightarrow> if s = '''' then d else s)"

definition new_RequestService :: "RequestServiceConfig option \<Rightarrow> request_service" where
  "new_RequestService config =
     \<lparr>basePath = or_default (Option.bind config config_basePath) ''/downloads'',
      requestRetry =
        \<lparr>count = 0,
         maxRetries = (case Option.bind config config_maxRetries of None \<Rightarrow> 3 | Some n \<Rightarrow> n),
         delay = (case Option.bind config config_delay of None \<Rightarrow> 1000 | Some n \<Rightarrow> n)\<rparr>\<rparr>"

text \<open>
  What \<^verbatim>\<open>fetch\<close> is called with, and what it answers: a response carries its status and
  the outcome of \<^verbatim>\<open>response.json()\<close>. The trace records every call of \<^verbatim>\<open>fetch\<close> and
  every timer wait, oldest first. The network is a parameter: \<open>net k call\<close> is the answer
  to \<open>call\<close> when \<open>k\<close> calls of \<^verbatim>\<open>fetch\<close> were made before it.
\<close>

record fetch_call =
  url :: string
  http_method :: string
  http_body :: "string option"

record response =
  status :: nat
  json_result :: "error + json"

datatype event = Fetch fetch_call | Sleep nat

type_synonym network = "nat \<Rightarrow> fetch_call \<Rightarrow> error + response"

definition ok :: "response \<Rightarrow> bool" where
  "ok r = (200 \<le> status r \<and> status r \<le> 299)"

fun is_fetch :: "event \<Rightarrow> bool" where
  "is_fetch (Fetch c) = True"
| "is_fetch (Sleep ms) = False"

definition fetch_count :: "event list \<Rightarrow> nat" where
  "fetch_count log = length (filter is_fetch log)"

record request_options =
  path :: "string option"
  request_method :: "string option"
  body :: "string option"
  queryParams :: "(string \<times> js_value) list option"

text \<open>
  The argument of \<^verbatim>\<open>fetch\<close> that \<^verbatim>\<open>request\<close> builds. The test
  \<^verbatim>\<open>options?.queryParams ? ... : ''\<close> is decided by the presence of the parameter object
  (every object is truthy); \<^verbatim>\<open>options?.path || ''\<close> and \<^verbatim>\<open>options?.method || 'GET'\<close>
  replace an absent or empty string (\<open>or_default\<close>). The field \<^verbatim>\<open>method\<close> of the
  options is the field \<open>request_method\<close> here.
\<close>

definition request_query :: "request_options option \<Rightarrow> error + string" where
  "request_query options =
     (case Option.bind options queryParams of
        None \<Rightarrow> Inr ''''
      | Some params \<Rightarrow>
          (case serializeQueryParams params [] of
             Inl err \<Rightarrow> Inl err
           | Inr query \<Rightarrow> Inr (''?'' @ toString query)))"

definition request_call :: "request_service \<Rightarrow> request_options option \<Rightarrow> error + fetch_call" where
  "request_call svc options =
     (case request_query options of
        Inl err \<Rightarrow> Inl err
      | Inr query \<Rightarrow>
          Inr \<lparr>url = basePath svc @ or_default (Option.bind options path) '''' @ query,
               http_method = or_default (Option.bind options request_method) ''GET'',
               http_body = Option.bind options body\<rparr>)"

definition set_count :: "nat \<Rightarrow> request_service \<Rightarrow> request_service" where
  "set_count n svc = svc\<lparr>requestRetry := (requestRetry svc)\<lparr>count := n\<rparr>\<rparr>"

text \<open>
  \<^verbatim>\<open>RequestService.request\<close>. The state is the service object (only \<^verbatim>\<open>count\<close> changes)
  and the trace. The recursive call of the source is the retry; it is made only while
  \<^verbatim>\<open>count < maxRetries\<close>, after \<^verbatim>\<open>count\<close> has grown by one, which is why the function
  terminates. The outer \<^verbatim>\<open>try/catch\<close> of the source rethrows what it catches.
\<close>

function request ::
  "network \<Rightarrow> request_options option \<Rightarrow> request_service \<times> event list
     \<Rightarrow> (error + json) \<times> request_service \<times> event list" where
  "request net options (svc, log) =
     (case request_call svc options of
        Inl err \<Rightarrow> (Inl err, svc, log)
      | Inr call \<Rightarrow>
          (case net (fetch_count log) call of
             Inl err \<Rightarrow> (Inl err, svc, log @ [Fetch call])
           | Inr response \<Rightarrow>
               if \<not> ok response then
                 if status response \<in> set [500, 502, 503, 504]
                    \<and> count (requestRetry svc) < maxRetries (requestRetry svc)
                 then request net options
                        (set_count (count (requestRetry svc) + 1) svc,
                         log @ [Fetch call, Sleep (delay (requestRetry svc))])
                 else if status response \<in> set [500, 502, 503, 504]
                    \<and> count (requestRetry svc) \<ge> maxRetries (requestRetry svc)
                 then (Inl (Error ''API endpoint failed to provide a valid response, max retries exceeded'' None),
                       svc, log @ [Fetch call])
                 else (Inl (Error (''API endpoint returned status code ''
                                    @ number_to_string (int (status response))) None),
                       set_count 0 svc, log @ [Fetch call])
               else
                 (case json_result response of
                    Inl err \<Rightarrow>
                      (Inl (Error ''API endpoint returned a non JSON response'' (Some err)),
                       set_count 0 svc, log @ [Fetch call])
                  | Inr parsed \<Rightarrow> (Inr parsed, set_count 0 svc, log @ [Fetch call]))))"
  by pat_completeness auto
termination
  by (relation "measure (\<lambda>(net, options, svc, log).
        maxRetries (requestRetry svc) - count (requestRetry svc))")
     (auto simp: set_count_def)

declare request.simps [simp del]

section \<open>Parsing dates and weeks (date-fns 2.x, as the client uses it)\<close>

text \<open>
  \<^verbatim>\<open>parseISO\<close>, \<^verbatim>\<open>startOfWeek\<close> and \<^verbatim>\<open>endOfWeek\<close> come from the library date-fns, which
  the client imports. They are modelled from the library's documented algorithm for
  strings that hold a date only. \<^verbatim>\<open>parseISO\<close> first parses the year with
  \<^verbatim>\<open>^(?:(\d{4}|[+-]\d{6})|(\d{2}|[+-]\d{4})$)\<close> and then the rest with
  \<^verbatim>\<open>^-?(?:(\d{3})|(\d{2})(?:-?(\d{2}))?|W(\d{2})(?:-?(\d{1}))?|)$\<close>: a week number is
  exactly two digits. A string with a time or a zone part (it contains \<^verbatim>\<open>T\<close>, a space or
  \<^verbatim>\<open>Z\<close>) is parsed by a part of the library that is not modelled; its result is the
  parameter \<open>with_time\<close> of the environment, about which nothing is assumed.
\<close>

definition is_digit :: "char \<Rightarrow> bool" where
  "is_digit c = (c \<in> set ''0123456789'')"

definition digits :: "string \<Rightarrow> bool" where
  "digits s = list_all is_digit s"

definition parseInt :: "string \<Rightarrow> int" where
  "parseInt s = foldl (\<lambda>a c. 10 * a + (of_char c - 48)) 0 s"

definition parseYear :: "string \<Rightarrow> (int \<times> string) option" where
  "parseYear s =
     (if 4 \<le> length s \<and> digits (take 4 s) then Some (parseInt (take 4 s), drop 4 s)
      else if 7 \<le> length s \<and> hd s \<in> set ''+-'' \<and> digits (take 6 (tl s))
        then Some ((if hd s = CHR ''-'' then - 1 else 1) * parseInt (take 6 (tl s)), drop 7 s)
      else if length s = 2 \<and> digits s then Some (parseInt s * 100, '''')
      else if length s = 5 \<and> hd s \<in> set ''+-'' \<and> digits (tl s)
        then Some ((if hd s = CHR ''-'' then - 1 else 1) * parseInt (tl s) * 100, '''')
      else None)"

definition isLeapYearIndex :: "int \<Rightarrow> bool" where
  "isLeapYearIndex y = (y mod 400 = 0 \<or> (y mod 4 = 0 \<and> y mod 100 \<noteq> 0))"

definition daysInMonth :: "int \<Rightarrow> int \<Rightarrow> int" where
  "daysInMonth y m =
     (if m = 1 then (if isLeapYearIndex y then 29 else 28)
      else [31, 0, 31, 30, 31, 30, 31, 31, 30, 31, 30, 31] ! nat m)"

definition validateDate :: "int \<Rightarrow> int \<Rightarrow> int \<Rightarrow> bool" where
  "validateDate y m d = (0 \<le> m \<and> m \<le> 11 \<and> 1 \<le> d \<and> d \<le> daysInMonth y m)"

definition validateDayOfYearDate :: "int \<Rightarrow> int \<Rightarrow> bool" where
  "validateDayOfYearDate y doy = (1 \<le> doy \<and> doy \<le> (if isLeapYearIndex y then 366 else 365))"

definition validateWeekDate :: "int \<Rightarrow> int \<Rightarrow> int \<Rightarrow> bool" where
  "validateWeekDate y w d = (1 \<le> w \<and> w \<le> 53 \<and> 0 \<le> d \<and> d \<le> 6)"

text \<open>
  The day number of day \<open>d\<close> (0 for Monday) of ISO week \<open>w\<close> of year \<open>y\<close>: counted
  from the 4th of January, which always lies in week 1.
\<close>

definition dayOfISOWeekYear :: "int \<Rightarrow> int \<Rightarrow> int \<Rightarrow> int" where
  "dayOfISOWeekYear y w d =
     (let jan4 = days_from_civil y 1 4;
          fourthOfJanuaryDay = (if (jan4 + 4) mod 7 = 0 then 7 else (jan4 + 4) mod 7)
      in jan4 + ((w - 1) * 7 + d + 1 - fourthOfJanuaryDay))"

text \<open>
  \<open>parseDate\<close> answers the day number of the date, or \<open>None\<close> for an invalid date.
  The four alternatives of the regular expression are tried on the whole rest of the
  string, after one optional hyphen.
\<close>

definition parseDate :: "string \<Rightarrow> int \<Rightarrow> int option" where
  "parseDate rest y =
     (let r = (if rest \<noteq> [] \<and> hd rest = CHR ''-'' then tl rest else rest) in
      if length r = 3 \<and> digits r then
        (if validateDate y 0 1 \<and> validateDayOfYearDate y (parseInt r)
         then Some (days_from_civil y 1 (max (parseInt r) 1)) else None)
      else if (length r = 2 \<or> length r = 4) \<and> digits r
              \<or> length r = 5 \<and> digits (take 2 r) \<and> r ! 2 = CHR ''-'' \<and> digits (drop 3 r) then
        (let month = parseInt (take 2 r) - 1;
             day = (if length r = 2 then 1 else parseInt (drop (length r - 2) r))
         in if validateDate y month day \<and> validateDayOfYearDate y 1
            then Some (days_from_civil y (month + 1) (max 1 day)) else None)
      else if 3 \<le> length r \<and> hd r = CHR ''W'' \<and> digits (take 2 (tl r))
              \<and> (length r = 3
                  \<or> length r = 4 \<and> is_digit (r ! 3)
                  \<or> length r = 5 \<and> r ! 3 = CHR ''-'' \<and> is_digit (r ! 4)) then
        (let week = parseInt (take 2 (tl r));
             dayOfWeek = (if length r = 3 then 1 else parseInt [last r]) - 1
         in if validateWeekDate y week dayOfWeek
            then Some (dayOfISOWeekYear y week dayOfWeek) else None)
      else if r = [] then
        (if validateDate y 0 1 \<and> validateDayOfYearDate y 1
         then Some (days_from_civil y 1 1) else None)
      else None)"

text \<open>
  \<open>parseISO\<close>: a string with a colon and no date and time delimiter has no date part;
  a date without zone is the local midnight of that day.
\<close>

definition parseISO :: "env \<Rightarrow> string \<Rightarrow> js_date" where
  "parseISO e s =
     (if \<exists>c \<in> set s. c \<in> set ''T Zz'' then with_time e s
      else if CHR '':'' \<in> set s \<or> s = [] then InvalidDate
      else (case parseYear s of
              None \<Rightarrow> InvalidDate
            | Some (y, rest) \<Rightarrow>
                (case parseDate rest y of
                   None \<Rightarrow> InvalidDate
                 | Some n \<Rightarrow> Date (n * msPerDay - tz e))))"

text \<open>
  \<^verbatim>\<open>startOfWeek\<close> and \<^verbatim>\<open>endOfWeek\<close> (imported as \<^verbatim>\<open>getStartOfWeek\<close> and \<^verbatim>\<open>getEndOfWeek\<close>):
  \<^verbatim>\<open>setDate(getDate() - diff)\<close> moves the local day, \<^verbatim>\<open>setHours\<close> sets the time of that
  day to 00:00:00.000 or to 23:59:59.999. On an invalid date every step yields
  \<^verbatim>\<open>NaN\<close>, and the result is an invalid date.
\<close>

fun getStartOfWeek :: "env \<Rightarrow> js_date \<Rightarrow> int \<Rightarrow> js_date" where
  "getStartOfWeek e InvalidDate weekStartsOn = InvalidDate"
| "getStartOfWeek e (Date t) weekStartsOn =
     (let day = (local_day e t + 4) mod 7;
          diff = (if day < weekStartsOn then 7 else 0) + day - weekStartsOn
      in Date ((local_day e t - diff) * msPerDay - tz e))"

fun getEndOfWeek :: "env \<Rightarrow> js_date \<Rightarrow> int \<Rightarrow> js_date" where
  "getEndOfWeek e InvalidDate weekStartsOn = InvalidDate"
| "getEndOfWeek e (Date t) weekStartsOn =
     (let day = (local_day e t + 4) mod 7;
          diff = (if day < weekStartsOn then - 7 else 0) + 6 - (day - weekStartsOn)
      in Date ((local_day e t + diff) * msPerDay + 86399999 - tz e))"

section \<open>The client (class NpmDownloadCountClient)\<close>

subsection \<open>Request paths\<close>

datatype RequestType = Point | Range

datatype RequestKeyword = LastDay | LastWeek | LastMonth

fun requestType_string :: "RequestType \<Rightarrow> string" where
  "requestType_string Point = ''point''"
| "requestType_string Range = ''range''"

fun keyword_string :: "RequestKeyword \<Rightarrow> string" where
  "keyword_string LastDay = ''last-day''"
| "keyword_string LastWeek = ''last-week''"
| "keyword_string LastMonth = ''last-month''"

text \<open>The three interfaces of the union type \<^verbatim>\<open>MakeRequestPathOptions\<close>.\<close>

datatype MakeRequestPathOptions =
    WithKeyword "string list" RequestType RequestKeyword
  | WithSingleDate "string list" RequestType js_date
  | WithDateRange "string list" RequestType js_date js_date

definition template_number :: "int option \<Rightarrow> string" where
  "template_number v = (case v of None \<Rightarrow> ''NaN'' | Some i \<Rightarrow> number_to_string i)"

text \<open>
  \<^verbatim>\<open>`${d.getFullYear()}-${d.getMonth() + 1}-${d.getDate()}`\<close>, the text that
  \<^verbatim>\<open>#makeRequestPaths\<close> writes for a date.
\<close>

definition date_fragment :: "env \<Rightarrow> js_date \<Rightarrow> string" where
  "date_fragment e d =
     template_number (getFullYear e d) @ ''-''
       @ template_number (map_option (\<lambda>m. m + 1) (getMonth e d)) @ ''-''
       @ template_number (getDate e d)"

fun request_when :: "env \<Rightarrow> MakeRequestPathOptions \<Rightarrow> string" where
  "request_when e (WithKeyword packages ty keyword) = keyword_string keyword"
| "request_when e (WithSingleDate packages ty d) = date_fragment e d"
| "request_when e (WithDateRange packages ty startDate endDate) =
     date_fragment e startDate @ '':'' @ date_fragment e endDate"

fun options_packages :: "MakeRequestPathOptions \<Rightarrow> string list" where
  "options_packages (WithKeyword packages ty keyword) = packages"
| "options_packages (WithSingleDate packages ty d) = packages"
| "options_packages (WithDateRange packages ty startDate endDate) = packages"

fun options_requestType :: "MakeRequestPathOptions \<Rightarrow> RequestType" where
  "options_requestType (WithKeyword packages ty keyword) = ty"
| "options_requestType (WithSingleDate packages ty d) = ty"
| "options_requestType (WithDateRange packages ty startDate endDate) = ty"

definition makeRequestPaths :: "env \<Rightarrow> MakeRequestPathOptions \<Rightarrow> string list" where
  "makeRequestPaths e options =
     map (\<lambda>packageName.
            ''/'' @ requestType_string (options_requestType options)
              @ ''/'' @ request_when e options @ ''/'' @ packageName)
         (options_packages options)"

subsection \<open>Weeks\<close>

datatype week_arg = WeekDate js_date | WeekString string

datatype week_start = Monday | Sunday

text \<open>
  \<^verbatim>\<open>#getStartAndEndDatesForWeek\<close>. \<^verbatim>\<open>week.toUpperCase().startsWith('W')\<close> holds when
  the string begins with \<^verbatim>\<open>W\<close> or \<^verbatim>\<open>w\<close>; the year of the clock is then written in
  front of the string as it is.
\<close>

definition getStartAndEndDatesForWeek ::
  "env \<Rightarrow> week_arg \<Rightarrow> week_start option \<Rightarrow> js_date \<times> js_date" where
  "getStartAndEndDatesForWeek e week startOfWeek =
     (let weekDate =
            (case week of
               WeekDate d \<Rightarrow> d
             | WeekString s \<Rightarrow>
                 if s \<noteq> [] \<and> hd s \<in> set ''Ww''
                 then parseISO e (template_number (getFullYear e (Date (now e))) @ s)
                 else parseISO e s);
          weekStartsOn = (if startOfWeek = Some Sunday then 0 else 1)
      in (getStartOfWeek e weekDate weekStartsOn, getEndOfWeek e weekDate weekStartsOn))"

subsection \<open>Response schemas (src/schemas) and their validation\<close>

text \<open>
  The schemas are written with the library zod; the part of it they use is modelled here.
  A schema's \<^verbatim>\<open>parse\<close> collects one issue for every value of the wrong type, with its
  path, and throws them all together; on success it returns the value, an object being
  reduced to the keys of its schema. A missing key is the value \<^verbatim>\<open>undefined\<close>
  (\<open>None\<close>).
\<close>

datatype zod_type = ZString | ZNumber | ZArray zod_type | ZObject "(string \<times> zod_type) list"

fun json_type :: "json option \<Rightarrow> string" where
  "json_type None = ''undefined''"
| "json_type (Some JNull) = ''null''"
| "json_type (Some (JBool b)) = ''boolean''"
| "json_type (Some (JNumber n)) = ''number''"
| "json_type (Some (JString s)) = ''string''"
| "json_type (Some (JArray xs)) = ''array''"
| "json_type (Some (JObject props)) = ''object''"

fun zod_issues :: "zod_type \<Rightarrow> key list \<Rightarrow> json option \<Rightarrow> zod_issue list" where
  "zod_issues ZString p v =
     (case v of Some (JString s) \<Rightarrow> [] | _ \<Rightarrow> [InvalidType p ''string'' (json_type v)])"
| "zod_issues ZNumber p v =
     (case v of Some (JNumber n) \<Rightarrow> [] | _ \<Rightarrow> [InvalidType p ''number'' (json_type v)])"
| "zod_issues (ZArray t) p v =
     (case v of
        Some (JArray xs) \<Rightarrow>
          concat (map (\<lambda>ix. zod_issues t (p @ [Index (fst ix)]) (Some (snd ix))) (enumerate 0 xs))
      | _ \<Rightarrow> [InvalidType p ''array'' (json_type v)])"
| "zod_issues (ZObject shape) p v =
     (case v of
        Some (JObject props) \<Rightarrow>
          concat (map (\<lambda>kt. zod_issues (snd kt) (p @ [Field (fst kt)]) (map_of props (fst kt))) shape)
      | _ \<Rightarrow> [InvalidType p ''object'' (json_type v)])"

fun zod_value :: "zod_type \<Rightarrow> json \<Rightarrow> json" where
  "zod_value (ZArray t) (JArray xs) = JArray (map (zod_value t) xs)"
| "zod_value (ZObject shape) (JObject props) =
     JObject (concat (map (\<lambda>kt. case map_of props (fst kt) of
                                    None \<Rightarrow> []
                                  | Some v \<Rightarrow> [(fst kt, zod_value (snd kt) v)]) shape))"
| "zod_value t v = v"

definition zod_parse :: "zod_type \<Rightarrow> json \<Rightarrow> error + json" where
  "zod_parse schema object =
     (if zod_issues schema [] (Some object) = [] then Inr (zod_value schema object)
      else Inl (ZodError (zod_issues schema [] (Some object))))"

definition NpmAPIPointResponseSchema :: zod_type where
  "NpmAPIPointResponseSchema =
     ZObject [(''package'', ZString), (''downloads'', ZNumber),
              (''start'', ZString), (''end'', ZString)]"

definition NpmAPIRangeResponseSchema :: zod_type where
  "NpmAPIRangeResponseSchema =
     ZObject [(''package'', ZString), (''start'', ZString), (''end'', ZString),
              (''downloads'', ZArray (ZObject [(''downloads'', ZNumber), (''day'', ZString)]))]"

fun errors :: "error \<Rightarrow> zod_issue list" where
  "errors (ZodError issues) = issues"
| "errors (ValidationError m issues c) = issues"
| "errors (Error m c) = []"
| "errors (Thrown m) = []"

definition parseObjectWithSchema :: "zod_type \<Rightarrow> json \<Rightarrow> error + json" where
  "parseObjectWithSchema schema object =
     (case zod_parse schema object of
        Inr parsed \<Rightarrow> Inr parsed
      | Inl err \<Rightarrow> Inl (ValidationError ''Object shape is not valid.'' (errors err) (Some err)))"

subsection \<open>Dispatching the requests\<close>

text \<open>
  The client talks to an injected request service (\<^verbatim>\<open>customServices.requestService\<close>, by
  default a \<^verbatim>\<open>RequestService\<close>). What the service answers is a parameter: \<open>svc i p\<close> is
  the outcome of the request for path \<open>p\<close> that the client dispatches as number \<open>i\<close>
  of a call, a value or the error its promise is rejected with.

  \<^verbatim>\<open>Promise.all\<close> fulfils with the values in the order of its input when every promise
  fulfils, and otherwise rejects with the reason of the promise that is rejected first in
  time. The order in which the promises settle is the parameter \<open>settled\<close>, a list of
  indices; promises it does not list settle after the listed ones, in input order.
\<close>

type_synonym requester = "nat \<Rightarrow> string \<Rightarrow> error + json"

definition promise_all :: "nat list \<Rightarrow> (error + 'a) list \<Rightarrow> error + 'a list" where
  "promise_all settled outcomes =
     (case filter (\<lambda>i. i < length outcomes \<and> isl (outcomes ! i))
                  (settled @ [0..<length outcomes]) of
        [] \<Rightarrow> Inr (map projr outcomes)
      | i # rest \<Rightarrow> Inl (projl (outcomes ! i)))"

text \<open>\<^verbatim>\<open>Array.prototype.map\<close> with a callback that may throw: the first throw ends it.\<close>

fun map_throwing :: "('a \<Rightarrow> error + 'b) \<Rightarrow> 'a list \<Rightarrow> error + 'b list" where
  "map_throwing f [] = Inr []"
| "map_throwing f (x # xs) =
     (case f x of
        Inl err \<Rightarrow> Inl err
      | Inr y \<Rightarrow> (case map_throwing f xs of Inl err \<Rightarrow> Inl err | Inr ys \<Rightarrow> Inr (y # ys)))"

definition dispatch :: "requester \<Rightarrow> string list \<Rightarrow> (error + json) list" where
  "dispatch svc paths = map (\<lambda>ip. svc (fst ip) (snd ip)) (enumerate 0 paths)"

text \<open>The private method \<^verbatim>\<open>#request\<close> of the client.\<close>

definition client_request ::
  "requester \<Rightarrow> nat list \<Rightarrow> string list \<Rightarrow> RequestType \<Rightarrow> error + json list" where
  "client_request svc settled paths ty =
     (case (case promise_all settled (dispatch svc paths) of
              Inl err \<Rightarrow> Inl err
            | Inr responses \<Rightarrow>
                map_throwing
                  (parseObjectWithSchema
                     (if ty = Point then NpmAPIPointResponseSchema else NpmAPIRangeResponseSchema))
                  responses) of
        Inl err \<Rightarrow> Inl (Error ''Unable to get downloads stats from the npm API'' (Some err))
      | Inr parsedResponses \<Rightarrow> Inr parsedResponses)"

subsection \<open>The public operations\<close>

datatype date_arg = DateObject js_date | DateString string

definition getBetweenDates ::
  "env \<Rightarrow> requester \<Rightarrow> nat list \<Rightarrow> string list \<Rightarrow> date_arg \<Rightarrow> date_arg \<Rightarrow> error + json list" where
  "getBetweenDates e svc settled packages start_arg end_arg =
     client_request svc settled
       (makeRequestPaths e
          (WithDateRange packages Point
             (case start_arg of DateObject d \<Rightarrow> d | DateString s \<Rightarrow> parseISO e s)
             (case end_arg of DateObject d \<Rightarrow> d | DateString s \<Rightarrow> parseISO e s)))
       Point"

definition getDailyDownloadsForLastMonth ::
  "env \<Rightarrow> requester \<Rightarrow> nat list \<Rightarrow> string list \<Rightarrow> error + json list" where
  "getDailyDownloadsForLastMonth e svc settled packages =
     client_request svc settled (makeRequestPaths e (WithKeyword packages Range LastMonth)) Range"

definition getDailyDownloadsForLastWeek ::
  "env \<Rightarrow> requester \<Rightarrow> nat list \<Rightarrow> string list \<Rightarrow> error + json list" where
  "getDailyDownloadsForLastWeek e svc settled packages =
     client_request svc settled (makeRequestPaths e (WithKeyword packages Range LastWeek)) Range"

definition getDailyDownloadsForMonth :: "error + json list" where
  "getDailyDownloadsForMonth = Inl (Error ''Method not implemented.'' None)"

definition getDailyDownloadsForWeek ::
  "env \<Rightarrow> requester \<Rightarrow> nat list \<Rightarrow> string list \<Rightarrow> week_arg \<Rightarrow> week_start option
     \<Rightarrow> error + json list" where
  "getDailyDownloadsForWeek e svc settled packages week startOfWeek =
     (case getStartAndEndDatesForWeek e week startOfWeek of
        (startDate, endDate) \<Rightarrow>
          client_request svc settled
            (makeRequestPaths e (WithDateRange packages Range startDate endDate)) Range)"

text \<open>
  \<^verbatim>\<open>getDay\<close> takes a \<^verbatim>\<open>Date\<close> (\<^verbatim>\<open>GetDayDownloadCountOptions\<close>); \<^verbatim>\<open>new Date(date)\<close> copies
  its time value. The name \<open>getDay\<close> is taken by the accessor of the week day.
\<close>

definition client_getDay ::
  "env \<Rightarrow> requester \<Rightarrow> nat list \<Rightarrow> string list \<Rightarrow> js_date \<Rightarrow> error + json list" where
  "client_getDay e svc settled packages d =
     client_request svc settled (makeRequestPaths e (WithSingleDate packages Point d)) Point"

definition getLastDay ::
  "env \<Rightarrow> requester \<Rightarrow> nat list \<Rightarrow> string list \<Rightarrow> error + json list" where
  "getLastDay e svc settled packages =
     client_request svc settled (makeRequestPaths e (WithKeyword packages Point LastDay)) Point"

definition getLastMonth ::
  "env \<Rightarrow> requester \<Rightarrow> nat list \<Rightarrow> string list \<Rightarrow> error + json list" where
  "getLastMonth e svc settled packages =
     client_request svc settled (makeRequestPaths e (WithKeyword packages Point LastMonth)) Point"

definition getLastWeek ::
  "env \<Rightarrow> requester \<Rightarrow> nat list \<Rightarrow> string list \<Rightarrow> error + json list" where
  "getLastWeek e svc settled packages =
     client_request svc settled (makeRequestPaths e (WithKeyword packages Point LastWeek)) Point"

definition getMonth_client :: "error + json list" where
  "getMonth_client = Inl (Error ''Method not implemented.'' None)"

definition getWeek ::
  "env \<Rightarrow> requester \<Rightarrow> nat list \<Rightarrow> string list \<Rightarrow> week_arg \<Rightarrow> week_start option
     \<Rightarrow> error + json list" where
  "getWeek e svc settled packages week startOfWeek =
     (case getStartAndEndDatesForWeek e week startOfWeek of
        (startDate, endDate) \<Rightarrow>
          client_request svc settled
            (makeRequestPaths e (WithDateRange packages Point startDate endDate)) Point)"

text \<open>
  A call of one of the public operations that dispatch requests, the paths it asks for
  and the kind of record it expects; \<open>invoke\<close> runs the call.
\<close>

datatype facade_call =
    GetBetweenDates "string list" date_arg date_arg
  | GetDailyDownloadsForLastMonth "string list"
  | GetDailyDownloadsForLastWeek "string list"
  | GetDailyDownloadsForWeek "string list" week_arg "week_start option"
  | GetDay "string list" js_date
  | GetLastDay "string list"
  | GetLastMonth "string list"
  | GetLastWeek "string list"
  | GetWeek "string list" week_arg "week_start option"

fun invoke :: "env \<Rightarrow> requester \<Rightarrow> nat list \<Rightarrow> facade_call \<Rightarrow> error + json list" where
  "invoke e svc settled (GetBetweenDates packages s t) = getBetweenDates e svc settled packages s t"
| "invoke e svc settled (GetDailyDownloadsForLastMonth packages) =
     getDailyDownloadsForLastMonth e svc settled packages"
| "invoke e svc settled (GetDailyDownloadsForLastWeek packages) =
     getDailyDownloadsForLastWeek e svc settled packages"
| "invoke e svc settled (GetDailyDownloadsForWeek packages week startOfWeek) =
     getDailyDownloadsForWeek e svc settled packages week startOfWeek"
| "invoke e svc settled (GetDay packages d) = client_getDay e svc settled packages d"
| "invoke e svc settled (GetLastDay packages) = getLastDay e svc settled packages"
| "invoke e svc settled (GetLastMonth packages) = getLastMonth e svc settled packages"
| "invoke e svc settled (GetLastWeek packages) = getLastWeek e svc settled packages"
| "invoke e svc settled (GetWeek packages week startOfWeek) =
     getWeek e svc settled packages week startOfWeek"

fun call_packages :: "facade_call \<Rightarrow> string list" where
  "call_packages (GetBetweenDates packages s t) = packages"
| "call_packages (GetDailyDownloadsForLastMonth packages) = packages"
| "call_packages (GetDailyDownloadsForLastWeek packages) = packages"
| "call_packages (GetDailyDownloadsForWeek packages week startOfWeek) = packages"
| "call_packages (GetDay packages d) = packages"
| "call_packages (GetLastDay packages) = packages"
| "call_packages (GetLastMonth packages) = packages"
| "call_packages (GetLastWeek packages) = packages"
| "call_packages (GetWeek packages week startOfWeek) = packages"

fun call_type :: "facade_call \<Rightarrow> RequestType" where
  "call_type (GetBetweenDates packages s t) = Point"
| "call_type (GetDailyDownloadsForLastMonth packages) = Range"
| "call_type (GetDailyDownloadsForLastWeek packages) = Range"
| "call_type (GetDailyDownloadsForWeek packages week startOfWeek) = Range"
| "call_type (GetDay packages d) = Point"
| "call_type (GetLastDay packages) = Point"
| "call_type (GetLastMonth packages) = Point"
| "call_type (GetLastWeek packages) = Point"
| "call_type (GetWeek packages week startOfWeek) = Point"

fun call_when :: "env \<Rightarrow> facade_call \<Rightarrow> string" where
  "call_when e (GetBetweenDates packages s t) =
     date_fragment e (case s of DateObject d \<Rightarrow> d | DateString x \<Rightarrow> parseISO e x) @ '':''
       @ date_fragment e (case t of DateObject d \<Rightarrow> d | DateString x \<Rightarrow> parseISO e x)"
| "call_when e (GetDailyDownloadsForLastMonth packages) = ''last-month''"
| "call_when e (GetDailyDownloadsForLastWeek packages) = ''last-week''"
| "call_when e (GetDailyDownloadsForWeek packages week startOfWeek) =
     date_fragment e (fst (getStartAndEndDatesForWeek e week startOfWeek)) @ '':''
       @ date_fragment e (snd (getStartAndEndDatesForWeek e week startOfWeek))"
| "call_when e (GetDay packages d) = date_fragment e d"
| "call_when e (GetLastDay packages) = ''last-day''"
| "call_when e (GetLastMonth packages) = ''last-month''"
| "call_when e (GetLastWeek packages) = ''last-week''"
| "call_when e (GetWeek packages week startOfWeek) =
     date_fragment e (fst (getStartAndEndDatesForWeek e week startOfWeek)) @ '':''
       @ date_fragment e (snd (getStartAndEndDatesForWeek e week startOfWeek))"

definition call_path :: "env \<Rightarrow> facade_call \<Rightarrow> string \<Rightarrow> string" where
  "call_path e call packageName =
     ''/'' @ requestType_string (call_type call) @ ''/'' @ call_when e call @ ''/'' @ packageName"

definition call_schema :: "facade_call \<Rightarrow> zod_type" where
  "call_schema call =
     (if call_type call = Point then NpmAPIPointResponseSchema else NpmAPIRangeResponseSchema)"

section \<open>Properties of the request service\<close>

lemma basePath_set_count [simp]: "basePath (set_count n svc) = basePath svc"
  by (simp add: set_count_def)

lemma request_call_set_count [simp]:
  "request_call (set_count n svc) options = request_call svc options"
  unfolding request_call_def basePath_set_count ..

lemma retry_fields_set_count [simp]:
  "count (requestRetry (set_count n svc)) = n"
  "maxRetries (requestRetry (set_count n svc)) = maxRetries (requestRetry svc)"
  "delay (requestRetry (set_count n svc)) = delay (requestRetry svc)"
  by (simp_all add: set_count_def)

lemma set_count_set_count [simp]: "set_count m (set_count n svc) = set_count m svc"
  by (simp add: set_count_def)

lemma set_count_same: "count (requestRetry svc) = n \<Longrightarrow> set_count n svc = svc"
  by (simp add: set_count_def)

lemma fetch_count_append [simp]: "fetch_count (xs @ ys) = fetch_count xs + fetch_count ys"
  by (simp add: fetch_count_def)

lemma fetch_count_simps [simp]:
  "fetch_count [] = 0"
  "fetch_count (Fetch c # xs) = Suc (fetch_count xs)"
  "fetch_count (Sleep d # xs) = fetch_count xs"
  by (simp_all add: fetch_count_def)

lemma new_RequestService_count [simp]: "count (requestRetry (new_RequestService config)) = 0"
  by (simp add: new_RequestService_def)

lemma new_RequestService_example:
  "new_RequestService (Some \<lparr>config_hostname = None, config_basePath = None, config_protocol = None,
                              config_maxRetries = Some 2, config_delay = Some 0\<rparr>)
     = \<lparr>basePath = ''/downloads'', requestRetry = \<lparr>count = 0, maxRetries = 2, delay = 0\<rparr>\<rparr>"
  "new_RequestService None
     = \<lparr>basePath = ''/downloads'', requestRetry = \<lparr>count = 0, maxRetries = 3, delay = 1000\<rparr>\<rparr>"
  by (simp_all add: new_RequestService_def or_default_def)

lemma retriable_not_ok: "status r \<in> set [500, 502, 503, 504] \<Longrightarrow> \<not> ok r"
  by (auto simp: ok_def)

lemma fetch_count_retries [simp]:
  "fetch_count (concat (replicate n [Sleep d, Fetch c])) = n"
  by (induction n) simp_all

lemma request_exhausts:
  assumes call: "request_call svc options = Inr call"
  shows "n = maxRetries (requestRetry svc) - count (requestRetry svc) \<Longrightarrow>
         count (requestRetry svc) \<le> maxRetries (requestRetry svc) \<Longrightarrow>
         \<forall>k. fetch_count log \<le> k \<and> k \<le> fetch_count log + n \<longrightarrow>
             (\<exists>r. net k call = Inr r \<and> status r \<in> set [500, 502, 503, 504]) \<Longrightarrow>
         request net options (svc, log) =
           (Inl (Error ''API endpoint failed to provide a valid response, max retries exceeded'' None),
            set_count (maxRetries (requestRetry svc)) svc,
            log @ Fetch call # concat (replicate n [Sleep (delay (requestRetry svc)), Fetch call]))"
  using call
proof (induction n arbitrary: svc log)
  case 0
  obtain r where r: "net (fetch_count log) call = Inr r" "status r \<in> set [500, 502, 503, 504]"
    using "0.prems"(3) by auto
  have eq: "count (requestRetry svc) = maxRetries (requestRetry svc)" using 0 by simp
  show ?case
    using r retriable_not_ok[OF r(2)] 0 eq set_count_same[OF eq]
    by (simp add: request.simps[of net options svc log])
next
  case (Suc n)
  obtain r where r: "net (fetch_count log) call = Inr r" "status r \<in> set [500, 502, 503, 504]"
    using Suc.prems(3) by auto
  let ?svc = "set_count (count (requestRetry svc) + 1) svc"
  let ?log = "log @ [Fetch call, Sleep (delay (requestRetry svc))]"
  have lt: "count (requestRetry svc) < maxRetries (requestRetry svc)" using Suc.prems by simp
  have step: "request net options (svc, log) = request net options (?svc, ?log)"
    using r retriable_not_ok[OF r(2)] lt Suc.prems(4)
    by (simp add: request.simps[of net options svc log])
  have later: "\<forall>k. fetch_count ?log \<le> k \<and> k \<le> fetch_count ?log + n \<longrightarrow>
             (\<exists>r. net k call = Inr r \<and> status r \<in> set [500, 502, 503, 504])"
    using Suc.prems(3) by simp
  have "request net options (?svc, ?log) =
      (Inl (Error ''API endpoint failed to provide a valid response, max retries exceeded'' None),
       set_count (maxRetries (requestRetry ?svc)) ?svc,
       ?log @ Fetch call # concat (replicate n [Sleep (delay (requestRetry ?svc)), Fetch call]))"
    by (rule Suc.IH[OF _ _ later]) (use Suc.prems lt in simp_all)
  then show ?case using step by simp
qed


text \<open>
  Claim C9. When the answer to a request has a status that is neither 2xx nor one of
  500, 502, 503 and 504, \<open>request\<close> fails at once: the trace grows by this one call of
  \<^verbatim>\<open>fetch\<close>, with no timer wait and no second call, and the error is
  \<^verbatim>\<open>API endpoint returned status code\<close> followed by the status in decimal. It holds
  whatever the retry counter was; the counter is zero afterwards.
\<close>

theorem non_retriable_status_fails_at_once:
  assumes "request_call svc options = Inr call"
    and "net (fetch_count log) call = Inr r"
    and "\<not> ok r"
    and "status r \<notin> {500, 502, 503, 504}"
  shows "request net options (svc, log) =
           (Inl (Error (''API endpoint returned status code '' @ number_to_string (int (status r))) None),
            set_count 0 svc, log @ [Fetch call])"
  using assms by (simp add: request.simps[of net options svc log])

lemma number_to_string_401: "number_to_string 401 = ''401''"
  by code_simp

text \<open>The status 401, on a service with the default configuration.\<close>

theorem non_retriable_status_fails_at_once_witness:
  "request_call \<lparr>basePath = ''/downloads'', requestRetry = \<lparr>count = 0, maxRetries = 3, delay = 1000\<rparr>\<rparr> None
     = Inr \<lparr>url = ''/downloads'', http_method = ''GET'', http_body = None\<rparr>
   \<and> \<not> ok \<lparr>status = 401, json_result = Inl (Thrown ''SyntaxError'')\<rparr>
   \<and> (401::nat) \<notin> {500, 502, 503, 504}
   \<and> request (\<lambda>k c. Inr \<lparr>status = 401, json_result = Inl (Thrown ''SyntaxError'')\<rparr>) None
        (\<lparr>basePath = ''/downloads'', requestRetry = \<lparr>count = 0, maxRetries = 3, delay = 1000\<rparr>\<rparr>, [])
      = (Inl (Error ''API endpoint returned status code 401'' None),
         \<lparr>basePath = ''/downloads'', requestRetry = \<lparr>count = 0, maxRetries = 3, delay = 1000\<rparr>\<rparr>,
         [Fetch \<lparr>url = ''/downloads'', http_method = ''GET'', http_body = None\<rparr>])"
  using non_retriable_status_fails_at_once
          [of "\<lparr>basePath = ''/downloads'', requestRetry = \<lparr>count = 0, maxRetries = 3, delay = 1000\<rparr>\<rparr>"
              None "\<lparr>url = ''/downloads'', http_method = ''GET'', http_body = None\<rparr>"
              "\<lambda>k c. Inr \<lparr>status = 401, json_result = Inl (Thrown ''SyntaxError'')\<rparr>" "[]"
              "\<lparr>status = 401, json_result = Inl (Thrown ''SyntaxError'')\<rparr>"]
  by (simp add: request_call_def request_query_def or_default_def ok_def set_count_def
                number_to_string_401)

text \<open>
  Claim C2. A service whose retry counter is zero (as it is after construction) and whose
  next \<open>maxRetries + 1\<close> calls of \<^verbatim>\<open>fetch\<close> are all answered with a status among 500,
  502, 503 and 504 makes exactly \<open>maxRetries + 1\<close> calls, each but the first preceded by
  a wait of the configured delay, and then fails with the error
  \<^verbatim>\<open>API endpoint failed to provide a valid response, max retries exceeded\<close>.
\<close>

theorem retries_exhausted_after_max_retries:
  assumes "count (requestRetry svc) = 0"
    and "request_call svc options = Inr call"
    and "\<forall>k. fetch_count log \<le> k \<and> k \<le> fetch_count log + maxRetries (requestRetry svc) \<longrightarrow>
           (\<exists>r. net k call = Inr r \<and> status r \<in> {500, 502, 503, 504})"
  shows "fst (request net options (svc, log)) =
           Inl (Error ''API endpoint failed to provide a valid response, max retries exceeded'' None)
       \<and> snd (snd (request net options (svc, log))) =
           log @ Fetch call # concat (replicate (maxRetries (requestRetry svc))
                                        [Sleep (delay (requestRetry svc)), Fetch call])
       \<and> fetch_count (snd (snd (request net options (svc, log)))) =
           fetch_count log + (maxRetries (requestRetry svc) + 1)"
proof -
  have "request net options (svc, log) =
           (Inl (Error ''API endpoint failed to provide a valid response, max retries exceeded'' None),
            set_count (maxRetries (requestRetry svc)) svc,
            log @ Fetch call # concat (replicate (maxRetries (requestRetry svc))
                                         [Sleep (delay (requestRetry svc)), Fetch call]))"
    by (rule request_exhausts[OF assms(2)]) (use assms(1,3) in simp_all)
  then show ?thesis by simp
qed

text \<open>
  With \<open>maxRetries = 2\<close> and a server that always answers 500: three calls. The service
  is the one the constructor builds from \<^verbatim>\<open>{requestRetryConfig: {maxRetries: 2, delay: 0}}\<close>.
\<close>

theorem retries_exhausted_after_max_retries_witness:
  "count (requestRetry (new_RequestService (Some \<lparr>config_hostname = None, config_basePath = None, config_protocol = None,
          config_maxRetries = Some 2, config_delay = Some 0\<rparr>))) = 0
   \<and> request_call (new_RequestService (Some \<lparr>config_hostname = None, config_basePath = None, config_protocol = None,
          config_maxRetries = Some 2, config_delay = Some 0\<rparr>)) None
       = Inr \<lparr>url = ''/downloads'', http_method = ''GET'', http_body = None\<rparr>
   \<and> fst (request (\<lambda>k c. Inr \<lparr>status = 500, json_result = Inl (Thrown ''SyntaxError'')\<rparr>) None
        (new_RequestService (Some \<lparr>config_hostname = None, config_basePath = None, config_protocol = None,
          config_maxRetries = Some 2, config_delay = Some 0\<rparr>), []))
      = Inl (Error ''API endpoint failed to provide a valid response, max retries exceeded'' None)
   \<and> snd (snd (request (\<lambda>k c. Inr \<lparr>status = 500, json_result = Inl (Thrown ''SyntaxError'')\<rparr>) None
        (new_RequestService (Some \<lparr>config_hostname = None, config_basePath = None, config_protocol = None,
          config_maxRetries = Some 2, config_delay = Some 0\<rparr>), [])))
      = [Fetch \<lparr>url = ''/downloads'', http_method = ''GET'', http_body = None\<rparr>, Sleep 0,
         Fetch \<lparr>url = ''/downloads'', http_method = ''GET'', http_body = None\<rparr>, Sleep 0,
         Fetch \<lparr>url = ''/downloads'', http_method = ''GET'', http_body = None\<rparr>]
   \<and> fetch_count (snd (snd (request (\<lambda>k c. Inr \<lparr>status = 500, json_result = Inl (Thrown ''SyntaxError'')\<rparr>) None
        (new_RequestService (Some \<lparr>config_hostname = None, config_basePath = None, config_protocol = None,
          config_maxRetries = Some 2, config_delay = Some 0\<rparr>), [])))) = 3"
  unfolding new_RequestService_example(1)
  using retries_exhausted_after_max_retries
          [of "\<lparr>basePath = ''/downloads'', requestRetry = \<lparr>count = 0, maxRetries = 2, delay = 0\<rparr>\<rparr>"
              None "\<lparr>url = ''/downloads'', http_method = ''GET'', http_body = None\<rparr>" "[]"
              "\<lambda>k c. Inr \<lparr>status = 500, json_result = Inl (Thrown ''SyntaxError'')\<rparr>"]
  by (simp add: request_call_def request_query_def or_default_def numeral_2_eq_2)

text \<open>
  Claim C3 says that the retry counter is zero again after every terminal outcome. It is
  after a success, a status that is not retried and a body that is not JSON, where the
  source resets it, but not after the retries are exhausted: that branch throws without
  the reset. With \<open>maxRetries = 2\<close> and a server that always answers 500 the counter is
  left at 2, and the next call on the same service gives up after a single call of
  \<^verbatim>\<open>fetch\<close>, with no retry.
\<close>

theorem retry_count_left_at_bound:
  "request (\<lambda>k c. Inr \<lparr>status = 500, json_result = Inl (Thrown ''SyntaxError'')\<rparr>) None
     (\<lparr>basePath = ''/downloads'', requestRetry = \<lparr>count = 0, maxRetries = 2, delay = 0\<rparr>\<rparr>, [])
   = (Inl (Error ''API endpoint failed to provide a valid response, max retries exceeded'' None),
      \<lparr>basePath = ''/downloads'', requestRetry = \<lparr>count = 2, maxRetries = 2, delay = 0\<rparr>\<rparr>,
      [Fetch \<lparr>url = ''/downloads'', http_method = ''GET'', http_body = None\<rparr>, Sleep 0,
       Fetch \<lparr>url = ''/downloads'', http_method = ''GET'', http_body = None\<rparr>, Sleep 0,
       Fetch \<lparr>url = ''/downloads'', http_method = ''GET'', http_body = None\<rparr>])
   \<and> request (\<lambda>k c. Inr \<lparr>status = 500, json_result = Inl (Thrown ''SyntaxError'')\<rparr>) None
     (\<lparr>basePath = ''/downloads'', requestRetry = \<lparr>count = 2, maxRetries = 2, delay = 0\<rparr>\<rparr>, [])
   = (Inl (Error ''API endpoint failed to provide a valid response, max retries exceeded'' None),
      \<lparr>basePath = ''/downloads'', requestRetry = \<lparr>count = 2, maxRetries = 2, delay = 0\<rparr>\<rparr>,
      [Fetch \<lparr>url = ''/downloads'', http_method = ''GET'', http_body = None\<rparr>])"
  by (simp add: request.simps request_call_def request_query_def or_default_def ok_def set_count_def)

section \<open>Properties of the query serializer\<close>









text \<open>
  Claim C8 says that a bigint parameter is written with all its digits. The source tests
  \<^verbatim>\<open>value instanceof BigInt\<close>, which is false for every bigint primitive, so the entry is
  skipped instead: the parameters of the repository's own test,
  \<^verbatim>\<open>{foo: 'bar@', baz: 1, bar: BigInt(42)}\<close>, give \<^verbatim>\<open>?foo=bar%40&baz=1\<close> without
  \<^verbatim>\<open>bar\<close>, and \<^verbatim>\<open>{id: 9007199254740993n}\<close> gives the bare \<^verbatim>\<open>?\<close>.
\<close>

theorem bigint_parameter_is_dropped:
  "serializeQueryParams ((key, VBigInt v) # params) query = serializeQueryParams params query
   \<and> request_query (Some \<lparr>path = None, request_method = None, body = None,
         queryParams = Some [(''foo'', VString ''bar@''), (''baz'', VNumber 1), (''bar'', VBigInt 42)]\<rparr>)
       = Inr ''?foo=bar%40&baz=1''
   \<and> request_query (Some \<lparr>path = None, request_method = None, body = None,
         queryParams = Some [(''id'', VBigInt 9007199254740993)]\<rparr>) = Inr ''?''"
  by (simp add: request_query_def encodeURI_def alphanumeric_def number_to_string_def show_nat.simps
        toString_def form_urlencode_def percent_encode_def hex_digit_def)




section \<open>Properties of the period resolver\<close>

lemma show_nat_not_empty: "show_nat n \<noteq> []"
  by (subst show_nat.simps) simp

lemma digit_not_zero: "0 < n \<Longrightarrow> n < 10 \<Longrightarrow> ''0123456789'' ! n \<noteq> CHR ''0''"
proof -
  assume "0 < n" "n < 10"
  then have "n \<in> {1, 2, 3, 4, 5, 6, 7, 8, 9}" by auto
  then show ?thesis by auto
qed

lemma show_nat_no_leading_zero: "0 < n \<Longrightarrow> hd (show_nat n) \<noteq> CHR ''0''"
proof (induction n rule: show_nat.induct)
  case (1 n)
  show ?case
  proof (cases "n < 10")
    case True
    then show ?thesis using "1.prems" digit_not_zero[of n] by (subst show_nat.simps) simp
  next
    case False
    then have "0 < n div 10" by simp
    then have "hd (show_nat (n div 10)) \<noteq> CHR ''0''" using "1.IH" False by simp
    then show ?thesis using False show_nat_not_empty[of "n div 10"]
      by (subst show_nat.simps) simp
  qed
qed

lemma number_to_string_no_leading_zero: "0 < i \<Longrightarrow> hd (number_to_string i) \<noteq> CHR ''0''"
  using show_nat_no_leading_zero[of "nat i"] by (simp add: number_to_string_def)

text \<open>
  Claim C4. For a valid date whose local calendar date is year \<open>y\<close>, month \<open>m\<close>
  (1 to 12) and day \<open>d\<close>, the text written into the path is \<open>y-m-d\<close> with each number
  in plain decimal; for a range it is the two such texts joined by a colon; and every
  package \<open>P\<close> gets the path \<^verbatim>\<open>/{point|range}/{text}/{P}\<close>. Plain decimal means no
  padding: the text of a positive number never starts with a zero.
\<close>

theorem request_paths_use_unpadded_dates:
  assumes "civil_from_days (local_day e t) = (y, m, d)"
    and "civil_from_days (local_day e t1) = (y1, m1, d1)"
    and "civil_from_days (local_day e t2) = (y2, m2, d2)"
  shows "makeRequestPaths e (WithSingleDate packages ty (Date t)) =
           map (\<lambda>P. ''/'' @ requestType_string ty @ ''/''
                    @ number_to_string y @ ''-'' @ number_to_string m @ ''-'' @ number_to_string d
                    @ ''/'' @ P) packages
       \<and> makeRequestPaths e (WithDateRange packages ty (Date t1) (Date t2)) =
           map (\<lambda>P. ''/'' @ requestType_string ty @ ''/''
                    @ number_to_string y1 @ ''-'' @ number_to_string m1 @ ''-'' @ number_to_string d1
                    @ '':''
                    @ number_to_string y2 @ ''-'' @ number_to_string m2 @ ''-'' @ number_to_string d2
                    @ ''/'' @ P) packages
       \<and> (\<forall>i. 0 < i \<longrightarrow> hd (number_to_string i) \<noteq> CHR ''0'')"
  using assms number_to_string_no_leading_zero
  by (simp add: makeRequestPaths_def date_fragment_def template_number_def)

text \<open>The first of May 2023 gives \<^verbatim>\<open>2023-5-1\<close>; the week of 15 to 21 May 2023.\<close>

theorem request_paths_use_unpadded_dates_witness:
  "civil_from_days (local_day \<lparr>tz = 0, now = 0, with_time = (\<lambda>s. InvalidDate)\<rparr> 1682899200000) = (2023, 5, 1)
   \<and> civil_from_days (local_day \<lparr>tz = 0, now = 0, with_time = (\<lambda>s. InvalidDate)\<rparr> 1684108800000) = (2023, 5, 15)
   \<and> civil_from_days (local_day \<lparr>tz = 0, now = 0, with_time = (\<lambda>s. InvalidDate)\<rparr> 1684627200000) = (2023, 5, 21)
   \<and> makeRequestPaths \<lparr>tz = 0, now = 0, with_time = (\<lambda>s. InvalidDate)\<rparr>
        (WithSingleDate [''@aws-lambda-powertools/logger''] Point (Date 1682899200000))
      = [''/point/2023-5-1/@aws-lambda-powertools/logger'']
   \<and> makeRequestPaths \<lparr>tz = 0, now = 0, with_time = (\<lambda>s. InvalidDate)\<rparr>
        (WithDateRange [''@aws-lambda-powertools/logger'', ''zod''] Range (Date 1684108800000) (Date 1684627200000))
      = [''/range/2023-5-15:2023-5-21/@aws-lambda-powertools/logger'', ''/range/2023-5-15:2023-5-21/zod'']
   \<and> hd (number_to_string 5) \<noteq> CHR ''0''"
proof -
  have "civil_from_days 19478 = (2023, 5, 1)"
    by code_simp
  then have a: "civil_from_days (local_day \<lparr>tz = 0, now = 0, with_time = (\<lambda>s. InvalidDate)\<rparr> 1682899200000) = (2023, 5, 1)"
    by (simp add: local_day_def msPerDay_def)
  have "civil_from_days 19492 = (2023, 5, 15)"
    by code_simp
  then have b: "civil_from_days (local_day \<lparr>tz = 0, now = 0, with_time = (\<lambda>s. InvalidDate)\<rparr> 1684108800000) = (2023, 5, 15)"
    by (simp add: local_day_def msPerDay_def)
  have "civil_from_days 19498 = (2023, 5, 21)"
    by code_simp
  then have c: "civil_from_days (local_day \<lparr>tz = 0, now = 0, with_time = (\<lambda>s. InvalidDate)\<rparr> 1684627200000) = (2023, 5, 21)"
    by (simp add: local_day_def msPerDay_def)
  have n: "number_to_string 2023 = ''2023''" "number_to_string 5 = ''5''" "number_to_string 1 = ''1''"
      "number_to_string 15 = ''15''" "number_to_string 21 = ''21''"
    by code_simp+
  have single: "makeRequestPaths \<lparr>tz = 0, now = 0, with_time = (\<lambda>s. InvalidDate)\<rparr>
        (WithSingleDate [''@aws-lambda-powertools/logger''] Point (Date 1682899200000))
      = [''/point/2023-5-1/@aws-lambda-powertools/logger'']"
    using request_paths_use_unpadded_dates[OF a b c, of "[''@aws-lambda-powertools/logger'']" Point]
    by (simp add: n)
  have range: "makeRequestPaths \<lparr>tz = 0, now = 0, with_time = (\<lambda>s. InvalidDate)\<rparr>
        (WithDateRange [''@aws-lambda-powertools/logger'', ''zod''] Range (Date 1684108800000) (Date 1684627200000))
      = [''/range/2023-5-15:2023-5-21/@aws-lambda-powertools/logger'', ''/range/2023-5-15:2023-5-21/zod'']"
    using request_paths_use_unpadded_dates[OF a b c, of "[''@aws-lambda-powertools/logger'', ''zod'']" Range]
    by (simp add: n)
  show ?thesis using a b c single range by (simp add: n)
qed

text \<open>The calendar on some known days, among them a leap day and a day before 1970.\<close>

lemma calendar_examples:
  "civil_from_days 0 = (1970, 1, 1)"
  "civil_from_days (- 1) = (1969, 12, 31)"
  "civil_from_days 19782 = (2024, 2, 29)"
  "days_from_civil 2024 2 29 = 19782"
  "days_from_civil 2023 5 15 = 19492"
  "civil_from_days (days_from_civil 2000 12 31) = (2000, 12, 31)"
  by code_simp+

lemma local_day_bounds:
  "local_day e t * msPerDay \<le> t + tz e \<and> t + tz e < local_day e t * msPerDay + msPerDay"
proof -
  have "0 \<le> (t + tz e) mod msPerDay" "(t + tz e) mod msPerDay < msPerDay"
    by (simp_all add: msPerDay_def)
  moreover have "(t + tz e) div msPerDay * msPerDay + (t + tz e) mod msPerDay = t + tz e"
    by simp
  ultimately show ?thesis unfolding local_day_def by linarith
qed

lemma week_start_day:
  fixes d w :: int
  assumes "w = 0 \<or> w = 1"
  defines "day \<equiv> (d + 4) mod 7"
  defines "diff \<equiv> (if day < w then 7 else 0) + day - w"
  shows "0 \<le> diff" and "diff \<le> 6" and "(d - diff + 4) mod 7 = w"
    and "(if day < w then - 7 else 0) + 6 - (day - w) = 6 - diff"
proof -
  have day: "0 \<le> day" "day < 7" by (simp_all add: day_def)
  show "0 \<le> diff" "diff \<le> 6" using day assms(1) by (auto simp: diff_def)
  show "(if day < w then - 7 else 0) + 6 - (day - w) = 6 - diff" by (simp add: diff_def)
  have "(d - diff + 4) mod 7 = (d + 4 - day + w) mod 7"
  proof (cases "day < w")
    case True
    then have eq: "d - diff + 4 = (d + 4 - day + w) - 7" by (simp add: diff_def)
    have "(x - 7) mod 7 = x mod 7" for x :: int by presburger
    then show ?thesis unfolding eq .
  next
    case False
    then have eq: "d - diff + 4 = d + 4 - day + w" by (simp add: diff_def)
    show ?thesis unfolding eq ..
  qed
  also have "\<dots> = ((d + 4 - (d + 4) mod 7) + w) mod 7" by (simp add: day_def)
  also have "\<dots> = (7 * ((d + 4) div 7) + w) mod 7"
    by (simp add: minus_mod_eq_mult_div)
  also have "\<dots> = w mod 7" by simp
  also have "\<dots> = w" using assms(1) by auto
  finally show "(d - diff + 4) mod 7 = w" .
qed

text \<open>
  A valid date resolves to the seven days of its week: the start is the local midnight
  of a day \<open>n\<close> that falls on the configured week day and is at most six days before
  the date, the end is the last millisecond of day \<open>n + 6\<close>. Every date between the
  start and the end of a week resolves to that same start and end.
\<close>

lemma week_span:
  assumes "weekStartsOn = 0 \<or> weekStartsOn = 1"
  shows "\<exists>n. getStartOfWeek e (Date t) weekStartsOn = Date (n * msPerDay - tz e)
           \<and> getEndOfWeek e (Date t) weekStartsOn = Date ((n + 6) * msPerDay + 86399999 - tz e)
           \<and> (n + 4) mod 7 = weekStartsOn
           \<and> n \<le> local_day e t \<and> local_day e t \<le> n + 6"
proof -
  define d where "d = local_day e t"
  define diff where "diff = (if (d + 4) mod 7 < weekStartsOn then 7 else 0) + (d + 4) mod 7 - weekStartsOn"
  note w = week_start_day[OF assms, of d, folded diff_def]
  have s: "getStartOfWeek e (Date t) weekStartsOn = Date ((d - diff) * msPerDay - tz e)"
    unfolding getStartOfWeek.simps Let_def d_def diff_def ..
  have "getEndOfWeek e (Date t) weekStartsOn = Date ((d + (6 - diff)) * msPerDay + 86399999 - tz e)"
    unfolding getEndOfWeek.simps Let_def w(4)[symmetric] d_def ..
  moreover have "d + (6 - diff) = d - diff + 6" by simp
  ultimately have u: "getEndOfWeek e (Date t) weekStartsOn
       = Date ((d - diff + 6) * msPerDay + 86399999 - tz e)"
    by (simp only:)
  show ?thesis
    using s u w(1,2,3) by (intro exI[of _ "d - diff"]) (simp add: d_def)
qed

lemma week_starts_on_configured_day:
  assumes "weekStartsOn = 0 \<or> weekStartsOn = 1"
  shows "\<exists>s. getStartOfWeek e (Date t) weekStartsOn = Date s
           \<and> getDay e (Date s) = Some weekStartsOn"
proof -
  obtain n where n: "getStartOfWeek e (Date t) weekStartsOn = Date (n * msPerDay - tz e)"
      "(n + 4) mod 7 = weekStartsOn"
    using week_span[OF assms, of e t] by auto
  have "local_day e (n * msPerDay - tz e) = n"
    by (simp add: local_day_def msPerDay_def)
  then show ?thesis using n by simp
qed

lemma same_week_same_span:
  assumes "weekStartsOn = 0 \<or> weekStartsOn = 1"
    and "getStartOfWeek e (Date t) weekStartsOn = Date s"
    and "getEndOfWeek e (Date t) weekStartsOn = Date u"
    and "s \<le> t'" and "t' \<le> u"
  shows "getStartOfWeek e (Date t') weekStartsOn = Date s
       \<and> getEndOfWeek e (Date t') weekStartsOn = Date u"
proof -
  obtain n where n: "s = n * msPerDay - tz e" "u = (n + 6) * msPerDay + 86399999 - tz e"
      "(n + 4) mod 7 = weekStartsOn"
    using week_span[OF assms(1), of e t] assms(2,3) by auto
  obtain n' where n': "getStartOfWeek e (Date t') weekStartsOn = Date (n' * msPerDay - tz e)"
      "getEndOfWeek e (Date t') weekStartsOn = Date ((n' + 6) * msPerDay + 86399999 - tz e)"
      "(n' + 4) mod 7 = weekStartsOn" "n' \<le> local_day e t'" "local_day e t' \<le> n' + 6"
    using week_span[OF assms(1), of e t'] by auto
  have "n * 86400000 \<le> t' + tz e" "t' + tz e < n * 86400000 + 604800000"
    using assms(4,5) unfolding n(1,2) msPerDay_def by (simp_all add: distrib_right)
  moreover have "local_day e t' * 86400000 \<le> t' + tz e"
      "t' + tz e < local_day e t' * 86400000 + 86400000"
    using local_day_bounds[of e t'] unfolding msPerDay_def by simp_all
  ultimately have day: "n \<le> local_day e t'" "local_day e t' \<le> n + 6"
    by linarith+
  have "(n' + 4) mod 7 = (n + 4) mod 7" using n(3) n'(3) by simp
  moreover have "- 6 \<le> n' - n" "n' - n \<le> 6" using day n'(4,5) by linarith+
  ultimately have "n' = n" by presburger
  then show ?thesis using n n' by simp
qed

lemma week_string_as_date:
  "getStartAndEndDatesForWeek e (WeekString s) startOfWeek =
     getStartAndEndDatesForWeek e
       (WeekDate (parseISO e (if s \<noteq> [] \<and> hd s \<in> set ''Ww''
                              then template_number (getFullYear e (Date (now e))) @ s else s)))
       startOfWeek"
  by (simp add: getStartAndEndDatesForWeek_def)

lemma week_dates_agree:
  assumes "getStartAndEndDatesForWeek e (WeekDate (Date t)) startOfWeek = (Date s, Date u)"
    and "s \<le> t'" and "t' \<le> u"
  shows "getStartAndEndDatesForWeek e (WeekDate (Date t')) startOfWeek = (Date s, Date u)"
proof -
  let ?w = "if startOfWeek = Some Sunday then 0 else 1 :: int"
  have w: "?w = 0 \<or> ?w = 1" by simp
  have "getStartOfWeek e (Date t) ?w = Date s" "getEndOfWeek e (Date t) ?w = Date u"
    using assms(1) unfolding getStartAndEndDatesForWeek_def Let_def week_arg.case
    by simp_all
  then have "getStartOfWeek e (Date t') ?w = Date s \<and> getEndOfWeek e (Date t') ?w = Date u"
    using same_week_same_span[OF w _ _ assms(2,3)] by blast
  then show ?thesis unfolding getStartAndEndDatesForWeek_def Let_def week_arg.case
    by simp
qed

text \<open>
  Claim C5 says that every form of week token resolves to the seven days of its week. The
  documentation of \<^verbatim>\<open>getWeek\<close> and \<^verbatim>\<open>getDailyDownloadsForWeek\<close> gives \<^verbatim>\<open>'W1'\<close> and
  \<^verbatim>\<open>'2020W1'\<close> as week 1 of the current year and of 2020, but \<^verbatim>\<open>parseISO\<close> reads a week
  number of exactly two digits: both strings resolve to an invalid start and an invalid
  end date, in every time zone and for either start of the week, and the path asked for
  is \<^verbatim>\<open>/point/NaN-NaN-NaN:NaN-NaN-NaN/{package}\<close>. The two-digit \<^verbatim>\<open>'2020W01'\<close> resolves
  to Monday 2019-12-30 through Sunday 2020-01-05.
\<close>

theorem one_digit_week_is_invalid:
  "getStartAndEndDatesForWeek e (WeekString ''2020W1'') startOfWeek = (InvalidDate, InvalidDate)
   \<and> getStartAndEndDatesForWeek (e\<lparr>tz := 0, now := 1684108800000\<rparr>) (WeekString ''W1'') startOfWeek
       = (InvalidDate, InvalidDate)
   \<and> getWeek e svc settled [''zod''] (WeekString ''2020W1'') startOfWeek
       = client_request svc settled [''/point/NaN-NaN-NaN:NaN-NaN-NaN/zod''] Point
   \<and> getStartAndEndDatesForWeek (e\<lparr>tz := 0\<rparr>) (WeekString ''2020W01'') None
       = (Date 1577664000000, Date 1578268799999)"
proof -
  have a: "parseISO e ''2020W1'' = InvalidDate" for e
    by (simp add: parseISO_def parseYear_def parseDate_def digits_def is_digit_def parseInt_def)
  have b: "parseISO e ''2023W1'' = InvalidDate" for e
    by (simp add: parseISO_def parseYear_def parseDate_def digits_def is_digit_def parseInt_def)
  have ld: "local_day (e\<lparr>tz := 0, now := 1684108800000\<rparr>) 1684108800000 = 19492"
    by (simp add: local_day_def msPerDay_def)
  have cv: "civil_from_days 19492 = (2023, 5, 15)"
    by code_simp
  have y: "getFullYear (e\<lparr>tz := 0, now := 1684108800000\<rparr>) (Date 1684108800000) = Some 2023"
    by (simp add: ld cv)
  have one: "getStartAndEndDatesForWeek e (WeekString ''2020W1'') startOfWeek = (InvalidDate, InvalidDate)" for e
    by (simp add: getStartAndEndDatesForWeek_def a)
  have "template_number (Some 2023) = ''2023''"
    by code_simp
  then have yr: "template_number (getFullYear (e\<lparr>tz := 0, now := 1684108800000\<rparr>) (Date 1684108800000))
       = ''2023''"
    by (simp only: y)
  have two: "getStartAndEndDatesForWeek (e\<lparr>tz := 0, now := 1684108800000\<rparr>) (WeekString ''W1'') startOfWeek
       = (InvalidDate, InvalidDate)"
    unfolding getStartAndEndDatesForWeek_def by (simp add: yr b del: getFullYear.simps)
  have frag: "date_fragment e InvalidDate = ''NaN-NaN-NaN''"
    by (simp add: date_fragment_def template_number_def)
  have three: "getWeek e svc settled [''zod''] (WeekString ''2020W1'') startOfWeek
       = client_request svc settled [''/point/NaN-NaN-NaN:NaN-NaN-NaN/zod''] Point"
    by (simp add: getWeek_def one makeRequestPaths_def frag)
  have jan4: "days_from_civil 2020 1 4 = 18265"
    by code_simp
  have monday: "dayOfISOWeekYear 2020 1 0 = 18260"
    by code_simp
  have py: "parseYear ''2020W01'' = Some (2020, ''W01'')"
    by (simp add: parseYear_def digits_def is_digit_def parseInt_def)
  have pd: "parseDate ''W01'' 2020 = Some 18260"
    by (simp add: parseDate_def digits_def is_digit_def parseInt_def validateWeekDate_def monday)
  have c: "parseISO (e\<lparr>tz := 0\<rparr>) ''2020W01'' = Date 1577664000000"
    by (simp add: parseISO_def py pd msPerDay_def)
  have ld': "local_day (e\<lparr>tz := 0\<rparr>) 1577664000000 = 18260"
    by (simp add: local_day_def msPerDay_def)
  have four: "getStartAndEndDatesForWeek (e\<lparr>tz := 0\<rparr>) (WeekString ''2020W01'') None
       = (Date 1577664000000, Date 1578268799999)"
    by (simp add: getStartAndEndDatesForWeek_def c ld' msPerDay_def)
  show ?thesis using one two three four by simp
qed

section \<open>Properties of the client\<close>

lemma invoke_eq:
  "invoke e svc settled call =
     client_request svc settled (map (call_path e call) (call_packages call)) (call_type call)"
  by (cases call)
     (simp_all add: getBetweenDates_def getDailyDownloadsForLastMonth_def
        getDailyDownloadsForLastWeek_def getDailyDownloadsForWeek_def client_getDay_def
        getLastDay_def getLastMonth_def getLastWeek_def getWeek_def
        makeRequestPaths_def call_path_def[abs_def] split: prod.splits)

lemma length_dispatch [simp]: "length (dispatch svc paths) = length paths"
  by (simp add: dispatch_def)

lemma nth_dispatch [simp]: "i < length paths \<Longrightarrow> dispatch svc paths ! i = svc i (paths ! i)"
  by (simp add: dispatch_def nth_enumerate_eq)

lemma promise_all_Inr:
  assumes "promise_all settled outcomes = Inr vals"
  shows "length vals = length outcomes"
    and "i < length outcomes \<Longrightarrow> outcomes ! i = Inr (vals ! i)"
proof -
  have none: "filter (\<lambda>i. i < length outcomes \<and> isl (outcomes ! i)) (settled @ [0..<length outcomes]) = []"
    and vals: "vals = map projr outcomes"
    using assms by (auto simp: promise_all_def split: list.splits)
  show "length vals = length outcomes" using vals by simp
  assume i: "i < length outcomes"
  then have "\<not> isl (outcomes ! i)"
    using none by (auto simp: filter_empty_conv)
  then show "outcomes ! i = Inr (vals ! i)"
    using vals i by (cases "outcomes ! i") auto
qed

lemma promise_all_Inl:
  assumes "promise_all settled outcomes = Inl err"
  shows "\<exists>i<length outcomes. outcomes ! i = Inl err"
proof -
  obtain i rest where f: "filter (\<lambda>i. i < length outcomes \<and> isl (outcomes ! i))
        (settled @ [0..<length outcomes]) = i # rest" and err: "err = projl (outcomes ! i)"
    using assms by (auto simp: promise_all_def split: list.splits)
  have "i \<in> set (filter (\<lambda>i. i < length outcomes \<and> isl (outcomes ! i)) (settled @ [0..<length outcomes]))"
    unfolding f by simp
  then have "i < length outcomes" "isl (outcomes ! i)" by auto
  then show ?thesis using err by (cases "outcomes ! i") auto
qed

lemma promise_all_rejects:
  assumes "i < length outcomes" and "isl (outcomes ! i)"
  shows "isl (promise_all settled outcomes)"
proof -
  have "i \<in> set (filter (\<lambda>i. i < length outcomes \<and> isl (outcomes ! i)) (settled @ [0..<length outcomes]))"
    using assms by simp
  then have "filter (\<lambda>i. i < length outcomes \<and> isl (outcomes ! i)) (settled @ [0..<length outcomes]) \<noteq> []"
    by (metis empty_iff list.set(1))
  then show ?thesis by (auto simp: promise_all_def split: list.splits)
qed

lemma map_throwing_Inr:
  "map_throwing f xs = Inr ys \<Longrightarrow>
     length ys = length xs \<and> (\<forall>i<length xs. f (xs ! i) = Inr (ys ! i))"
proof (induction xs arbitrary: ys)
  case Nil
  then show ?case by simp
next
  case (Cons x xs)
  then obtain y ys' where y: "f x = Inr y" "map_throwing f xs = Inr ys'" "ys = y # ys'"
    by (auto split: sum.splits)
  then show ?case using Cons.IH[OF y(2)] by (auto simp: nth_Cons split: nat.splits)
qed

lemma map_throwing_Inl:
  "map_throwing f xs = Inl err \<Longrightarrow> \<exists>i<length xs. f (xs ! i) = Inl err"
proof (induction xs)
  case Nil
  then show ?case by simp
next
  case (Cons x xs)
  show ?case
  proof (cases "f x")
    case (Inl a)
    then show ?thesis using Cons.prems by auto
  next
    case (Inr y)
    then have "map_throwing f xs = Inl err" using Cons.prems by (auto split: sum.splits)
    then obtain i where "i < length xs" "f (xs ! i) = Inl err" using Cons.IH by blast
    then show ?thesis by (intro exI[of _ "Suc i"]) simp
  qed
qed

lemma map_throwing_throws:
  "i < length xs \<Longrightarrow> isl (f (xs ! i)) \<Longrightarrow> isl (map_throwing f xs)"
proof (induction xs arbitrary: i)
  case Nil
  then show ?case by simp
next
  case (Cons x xs)
  then show ?case by (cases i) (auto split: sum.splits)
qed

lemma parseObjectWithSchema_Inl:
  "parseObjectWithSchema schema object = Inl cause \<Longrightarrow>
     zod_issues schema [] (Some object) \<noteq> [] \<and>
     cause = ValidationError ''Object shape is not valid.'' (zod_issues schema [] (Some object))
               (Some (ZodError (zod_issues schema [] (Some object))))"
  by (auto simp: parseObjectWithSchema_def zod_parse_def split: if_splits)

lemma client_request_Inr:
  assumes "client_request svc settled paths ty = Inr records"
  shows "length records = length paths
       \<and> (\<forall>i<length paths. \<exists>response. svc i (paths ! i) = Inr response
            \<and> parseObjectWithSchema
                 (if ty = Point then NpmAPIPointResponseSchema else NpmAPIRangeResponseSchema)
                 response = Inr (records ! i))"
proof -
  let ?schema = "if ty = Point then NpmAPIPointResponseSchema else NpmAPIRangeResponseSchema"
  obtain responses where all: "promise_all settled (dispatch svc paths) = Inr responses"
    and parsed: "map_throwing (parseObjectWithSchema ?schema) responses = Inr records"
    using assms by (auto simp: client_request_def split: sum.splits)
  have len: "length responses = length paths"
    using promise_all_Inr(1)[OF all] by simp
  have resp: "svc i (paths ! i) = Inr (responses ! i)" if "i < length paths" for i
    using promise_all_Inr(2)[OF all, of i] that by simp
  show ?thesis
    using map_throwing_Inr[OF parsed] len resp by auto
qed

lemma client_request_Inl:
  assumes "client_request svc settled paths ty = Inl err"
  shows "\<exists>cause i. i < length paths
       \<and> err = Error ''Unable to get downloads stats from the npm API'' (Some cause)
       \<and> (svc i (paths ! i) = Inl cause
          \<or> (\<exists>response. svc i (paths ! i) = Inr response
                \<and> parseObjectWithSchema
                     (if ty = Point then NpmAPIPointResponseSchema else NpmAPIRangeResponseSchema)
                     response = Inl cause))"
proof (cases "promise_all settled (dispatch svc paths)")
  case (Inl cause)
  then obtain i where "i < length paths" "svc i (paths ! i) = Inl cause"
    using promise_all_Inl[OF Inl] by auto
  moreover have "err = Error ''Unable to get downloads stats from the npm API'' (Some cause)"
    using assms Inl by (simp add: client_request_def)
  ultimately show ?thesis by blast
next
  case (Inr responses)
  let ?schema = "if ty = Point then NpmAPIPointResponseSchema else NpmAPIRangeResponseSchema"
  obtain cause where cause: "map_throwing (parseObjectWithSchema ?schema) responses = Inl cause"
      and err: "err = Error ''Unable to get downloads stats from the npm API'' (Some cause)"
    using assms Inr by (auto simp: client_request_def split: sum.splits)
  obtain i where i: "i < length responses" "parseObjectWithSchema ?schema (responses ! i) = Inl cause"
    using map_throwing_Inl[OF cause] by blast
  have "length responses = length paths" using promise_all_Inr(1)[OF Inr] by simp
  moreover have "svc i (paths ! i) = Inr (responses ! i)"
    using promise_all_Inr(2)[OF Inr, of i] i(1) calculation by simp
  ultimately show ?thesis using i err by auto
qed

lemma client_request_fails:
  assumes "i < length paths"
    and "\<not> (\<exists>response parsed. svc i (paths ! i) = Inr response
            \<and> parseObjectWithSchema
                 (if ty = Point then NpmAPIPointResponseSchema else NpmAPIRangeResponseSchema)
                 response = Inr parsed)"
  shows "isl (client_request svc settled paths ty)"
proof (cases "client_request svc settled paths ty")
  case (Inl a)
  then show ?thesis by simp
next
  case (Inr records)
  then show ?thesis using client_request_Inr[OF Inr] assms by blast
qed

lemma missing_package_is_invalid:
  "parseObjectWithSchema NpmAPIPointResponseSchema
     (JObject [(''downloads'', JNumber 2165), (''start'', JString ''2023-05-08''),
               (''end'', JString ''2023-05-14'')])
   = Inl (ValidationError ''Object shape is not valid.''
            [InvalidType [Field ''package''] ''string'' ''undefined'']
            (Some (ZodError [InvalidType [Field ''package''] ''string'' ''undefined''])))"
  by (simp add: parseObjectWithSchema_def zod_parse_def NpmAPIPointResponseSchema_def)


text \<open>
  Claim C1. Take any of the public operations that dispatch requests, and suppose that
  one of its requests does not lead to a valid record: the request service rejects it
  (with whatever error: a bad status, exhausted retries, a body that is not JSON, a
  network failure), or its response fails the schema. Then the operation fails with
  \<^verbatim>\<open>new Error('Unable to get downloads stats from the npm API', { cause })\<close>, where the
  cause is the error with which one of the dispatched requests was rejected or, when all
  were answered, the \<^verbatim>\<open>ValidationError\<close> of a response that fails the schema, which
  carries the issues and the schema library's own error as its cause. This holds for
  every order in which the requests settle.
\<close>

theorem facade_failure_is_wrapped:
  assumes "i < length (call_packages call)"
    and "\<not> (\<exists>response parsed.
               svc i (call_path e call (call_packages call ! i)) = Inr response
             \<and> parseObjectWithSchema (call_schema call) response = Inr parsed)"
  shows "\<exists>cause j. j < length (call_packages call)
       \<and> invoke e svc settled call
            = Inl (Error ''Unable to get downloads stats from the npm API'' (Some cause))
       \<and> (svc j (call_path e call (call_packages call ! j)) = Inl cause
          \<or> (\<exists>response. svc j (call_path e call (call_packages call ! j)) = Inr response
                \<and> zod_issues (call_schema call) [] (Some response) \<noteq> []
                \<and> cause = ValidationError ''Object shape is not valid.''
                            (zod_issues (call_schema call) [] (Some response))
                            (Some (ZodError (zod_issues (call_schema call) [] (Some response))))))"
proof -
  let ?paths = "map (call_path e call) (call_packages call)"
  have i: "i < length ?paths" using assms(1) by simp
  have "isl (client_request svc settled ?paths (call_type call))"
    by (rule client_request_fails[OF i]) (use assms in \<open>simp add: call_schema_def\<close>)
  then obtain err where err: "client_request svc settled ?paths (call_type call) = Inl err"
    by (cases "client_request svc settled ?paths (call_type call)") auto
  obtain cause j where j: "j < length ?paths"
    and wrapped: "err = Error ''Unable to get downloads stats from the npm API'' (Some cause)"
    and cause: "svc j (?paths ! j) = Inl cause
          \<or> (\<exists>response. svc j (?paths ! j) = Inr response
                \<and> parseObjectWithSchema (call_schema call) response = Inl cause)"
    using client_request_Inl[OF err] unfolding call_schema_def by blast
  have path: "?paths ! j = call_path e call (call_packages call ! j)" using j by simp
  have "svc j (call_path e call (call_packages call ! j)) = Inl cause
          \<or> (\<exists>response. svc j (call_path e call (call_packages call ! j)) = Inr response
                \<and> zod_issues (call_schema call) [] (Some response) \<noteq> []
                \<and> cause = ValidationError ''Object shape is not valid.''
                            (zod_issues (call_schema call) [] (Some response))
                            (Some (ZodError (zod_issues (call_schema call) [] (Some response)))))"
    using cause parseObjectWithSchema_Inl unfolding path by blast
  moreover have "invoke e svc settled call
            = Inl (Error ''Unable to get downloads stats from the npm API'' (Some cause))"
    using err wrapped by (simp add: invoke_eq)
  ultimately show ?thesis using j by auto
qed


text \<open>
  The case of the repository's test: \<^verbatim>\<open>getDay\<close> with a response that lacks the field
  \<^verbatim>\<open>package\<close>.
\<close>

theorem facade_failure_is_wrapped_witness:
  "0 < length (call_packages (GetDay [''@aws-lambda-powertools/logger''] (Date 1684108800000)))
   \<and> \<not> (\<exists>response parsed.
           (\<lambda>i p. Inr (JObject [(''downloads'', JNumber 2165), (''start'', JString ''2023-05-08''),
                                 (''end'', JString ''2023-05-14'')])) (0::nat)
             (call_path \<lparr>tz = 0, now = 0, with_time = (\<lambda>s. InvalidDate)\<rparr>
                (GetDay [''@aws-lambda-powertools/logger''] (Date 1684108800000))
                (call_packages (GetDay [''@aws-lambda-powertools/logger''] (Date 1684108800000)) ! 0))
             = (Inr response :: error + json)
         \<and> parseObjectWithSchema
               (call_schema (GetDay [''@aws-lambda-powertools/logger''] (Date 1684108800000)))
               response = Inr parsed)
   \<and> invoke \<lparr>tz = 0, now = 0, with_time = (\<lambda>s. InvalidDate)\<rparr>
        (\<lambda>i p. Inr (JObject [(''downloads'', JNumber 2165), (''start'', JString ''2023-05-08''),
                              (''end'', JString ''2023-05-14'')]))
        [] (GetDay [''@aws-lambda-powertools/logger''] (Date 1684108800000))
      = Inl (Error ''Unable to get downloads stats from the npm API''
               (Some (ValidationError ''Object shape is not valid.''
                        [InvalidType [Field ''package''] ''string'' ''undefined'']
                        (Some (ZodError [InvalidType [Field ''package''] ''string'' ''undefined''])))))"
proof -
  let ?call = "GetDay [''@aws-lambda-powertools/logger''] (Date 1684108800000)"
  let ?e = "\<lparr>tz = 0, now = 0, with_time = (\<lambda>s. InvalidDate)\<rparr>"
  let ?object = "JObject [(''downloads'', JNumber 2165), (''start'', JString ''2023-05-08''),
                          (''end'', JString ''2023-05-14'')]"
  let ?svc = "(\<lambda>i p. Inr ?object) :: requester"
  have schema: "call_schema ?call = NpmAPIPointResponseSchema"
    by (simp add: call_schema_def)
  have h1: "0 < length (call_packages ?call)" by simp
  have h2: "\<not> (\<exists>response parsed.
               ?svc 0 (call_path ?e ?call (call_packages ?call ! 0)) = Inr response
             \<and> parseObjectWithSchema (call_schema ?call) response = Inr parsed)"
    by (simp add: schema missing_package_is_invalid)
  obtain cause j where j: "invoke ?e ?svc [] ?call
            = Inl (Error ''Unable to get downloads stats from the npm API'' (Some cause))"
     and cause: "\<exists>response. ?svc j (call_path ?e ?call (call_packages ?call ! j)) = Inr response
                \<and> cause = ValidationError ''Object shape is not valid.''
                            (zod_issues (call_schema ?call) [] (Some response))
                            (Some (ZodError (zod_issues (call_schema ?call) [] (Some response))))"
    using facade_failure_is_wrapped[of 0 ?call ?svc ?e "[]", OF h1 h2] by auto
  have "cause = ValidationError ''Object shape is not valid.''
                  [InvalidType [Field ''package''] ''string'' ''undefined'']
                  (Some (ZodError [InvalidType [Field ''package''] ''string'' ''undefined'']))"
    using cause by (simp add: schema NpmAPIPointResponseSchema_def)
  then show ?thesis using h1 h2 j by simp
qed


text \<open>
  Claim C10. When an operation succeeds, it returns as many records as it was given
  packages, and record number \<open>i\<close> is the validated response to the request for the
  path of package number \<open>i\<close>, in whatever order the requests settled.
\<close>

theorem facade_results_follow_packages:
  assumes "invoke e svc settled call = Inr records"
  shows "length records = length (call_packages call)
       \<and> (\<forall>i<length (call_packages call).
             \<exists>response. svc i (call_path e call (call_packages call ! i)) = Inr response
               \<and> parseObjectWithSchema (call_schema call) response = Inr (records ! i))"
  using client_request_Inr[of svc settled "map (call_path e call) (call_packages call)" "call_type call" records]
        assms
  by (simp add: invoke_eq call_schema_def)

text \<open>
  Two packages whose requests settle in the reverse order; a key outside the schema is
  dropped from the record.
\<close>

theorem facade_results_follow_packages_witness:
  "invoke \<lparr>tz = 0, now = 0, with_time = (\<lambda>s. InvalidDate)\<rparr>
      (\<lambda>i p. Inr (JObject [(''package'', JString (drop 16 p)), (''downloads'', JNumber (int i)),
                            (''start'', JString ''2023-05-15''), (''end'', JString ''2023-05-15''),
                            (''unused'', JNull)]))
      [1, 0] (GetLastDay [''zod'', ''undici''])
    = Inr [JObject [(''package'', JString ''zod''), (''downloads'', JNumber 0),
                    (''start'', JString ''2023-05-15''), (''end'', JString ''2023-05-15'')],
           JObject [(''package'', JString ''undici''), (''downloads'', JNumber 1),
                    (''start'', JString ''2023-05-15''), (''end'', JString ''2023-05-15'')]]
   \<and> length [JObject [(''package'', JString ''zod''), (''downloads'', JNumber 0),
                    (''start'', JString ''2023-05-15''), (''end'', JString ''2023-05-15'')],
           JObject [(''package'', JString ''undici''), (''downloads'', JNumber 1),
                    (''start'', JString ''2023-05-15''), (''end'', JString ''2023-05-15'')]]
       = length (call_packages (GetLastDay [''zod'', ''undici'']))
   \<and> call_path \<lparr>tz = 0, now = 0, with_time = (\<lambda>s. InvalidDate)\<rparr> (GetLastDay [''zod'', ''undici''])
        (call_packages (GetLastDay [''zod'', ''undici'']) ! 1) = ''/point/last-day/undici''
   \<and> parseObjectWithSchema (call_schema (GetLastDay [''zod'', ''undici'']))
        (JObject [(''package'', JString ''undici''), (''downloads'', JNumber 1),
                  (''start'', JString ''2023-05-15''), (''end'', JString ''2023-05-15''),
                  (''unused'', JNull)])
       = Inr (JObject [(''package'', JString ''undici''), (''downloads'', JNumber 1),
                    (''start'', JString ''2023-05-15''), (''end'', JString ''2023-05-15'')])"
proof -
  let ?call = "GetLastDay [''zod'', ''undici'']"
  let ?e = "\<lparr>tz = 0, now = 0, with_time = (\<lambda>s. InvalidDate)\<rparr>"
  let ?svc = "(\<lambda>i p. Inr (JObject [(''package'', JString (drop 16 p)), (''downloads'', JNumber (int i)),
                            (''start'', JString ''2023-05-15''), (''end'', JString ''2023-05-15''),
                            (''unused'', JNull)])) :: requester"
  let ?zod = "JObject [(''package'', JString ''zod''), (''downloads'', JNumber 0),
                    (''start'', JString ''2023-05-15''), (''end'', JString ''2023-05-15'')]"
  let ?undici = "JObject [(''package'', JString ''undici''), (''downloads'', JNumber 1),
                    (''start'', JString ''2023-05-15''), (''end'', JString ''2023-05-15'')]"
  have paths: "makeRequestPaths ?e (WithKeyword [''zod'', ''undici''] Point LastDay)
       = [''/point/last-day/zod'', ''/point/last-day/undici'']"
    by (simp add: makeRequestPaths_def)
  have outcomes: "dispatch ?svc [''/point/last-day/zod'', ''/point/last-day/undici'']
       = [?svc 0 ''/point/last-day/zod'', ?svc 1 ''/point/last-day/undici'']"
    by (simp add: dispatch_def enumerate_eq_zip upt_rec)
  have p0: "parseObjectWithSchema NpmAPIPointResponseSchema
        (JObject [(''package'', JString ''zod''), (''downloads'', JNumber 0),
                  (''start'', JString ''2023-05-15''), (''end'', JString ''2023-05-15''), (''unused'', JNull)])
       = Inr ?zod"
    by (simp add: parseObjectWithSchema_def zod_parse_def NpmAPIPointResponseSchema_def)
  have p1: "parseObjectWithSchema NpmAPIPointResponseSchema
        (JObject [(''package'', JString ''undici''), (''downloads'', JNumber 1),
                  (''start'', JString ''2023-05-15''), (''end'', JString ''2023-05-15''), (''unused'', JNull)])
       = Inr ?undici"
    by (simp add: parseObjectWithSchema_def zod_parse_def NpmAPIPointResponseSchema_def)
  have run: "invoke ?e ?svc [1, 0] ?call = Inr [?zod, ?undici]"
    by (simp add: getLastDay_def client_request_def paths outcomes promise_all_def upt_rec p0 p1)
  have schema: "call_schema ?call = NpmAPIPointResponseSchema"
    by (simp add: call_schema_def)
  have path1: "call_path ?e ?call (call_packages ?call ! 1) = ''/point/last-day/undici''"
    by (simp add: call_path_def)
  show ?thesis
    using facade_results_follow_packages[OF run] run path1 p1 schema by simp
qed

end
